theory Spec2Isabelle
  imports Main "HOL-Library.Word"
begin

section \<open>Data model\<close>

text \<open>
  The Go sources fix 32-bit unsigned user ids and ports, 64-bit limits and an
  \<open>int64\<close> counter behind the container ids.
\<close>

type_synonym uint32 = "32 word"
type_synonym uint64 = "64 word"

text \<open>
  Go errors are values.  \<open>UnknownHandleError\<close> is the one error type that
  \<open>linux_backend.go\<close> constructs itself; every other error is produced by a collaborator
  (a resource pool, the command runner, the cgroups manager, the JSON decoder) and is
  handed through unchanged.
\<close>

datatype error =
    UnknownHandleError string
  | OtherError string

text \<open>
  Modelled from the spec: \<open>network.Network\<close> (its package is not among the sources).
  The container pool reads three renderings of a network: its CIDR string, its host
  address and its container address.
\<close>

record Network =
  ipNet :: string
  hostIP :: string
  containerIP :: string

text \<open>
  Modelled from the spec: \<open>linux_backend.Resources\<close> (its declaration is not among the
  sources), the triple of user id, network and ordered port list.  \<open>ResourcesSnapshot\<close>
  has the same three fields, so one record stands for both.
\<close>

record Resources =
  UID :: uint32
  Network :: Network
  Ports :: "uint32 list"

record MemoryLimits =
  LimitInBytes :: uint64

record DiskLimits =
  BlockLimit :: uint64
  Block :: uint64
  BlockSoft :: uint64
  BlockHard :: uint64
  InodeLimit :: uint64
  Inode :: uint64
  InodeSoft :: uint64
  InodeHard :: uint64
  ByteLimit :: uint64
  Byte :: uint64
  ByteSoft :: uint64
  ByteHard :: uint64

record BandwidthLimits =
  RateInBytesPerSecond :: uint64
  BurstRateInBytesPerSecond :: uint64

record CPULimits =
  LimitInShares :: uint64

record NetInSpec =
  HostPort :: uint32
  ContainerPort :: uint32

record NetOutSpec =
  NetOutNetwork :: string
  NetOutPort :: uint32

record LimitsSnapshot =
  Memory :: "MemoryLimits option"
  Disk :: "DiskLimits option"
  Bandwidth :: "BandwidthLimits option"
  CPU :: "CPULimits option"

text \<open>
  Modelled from the spec: \<open>linux_backend.ContainerSnapshot\<close> and its parts (their
  declarations are not among the sources), with the fields that \<open>container_pool.go\<close>
  reads and the tests construct.  A process is snapshotted by its id only.
\<close>

record ContainerSnapshot =
  ID :: string
  Handle :: string
  GraceTime :: int
  State :: string
  Events :: "string list"
  Limits :: LimitsSnapshot
  SnapResources :: Resources
  NetIns :: "NetInSpec list"
  NetOuts :: "NetOutSpec list"
  Processes :: "uint32 list"
  Properties :: "string \<rightharpoonup> string"

text \<open>
  Modelled from the spec: the struct \<open>LinuxContainer\<close> (\<open>linux_container.go\<close> is not among
  the sources; its tests and its callers are).  The fields are those of section 3 of the
  specification; \<open>state\<close> is a string because \<open>State\<close> is a Go string type and a restored
  snapshot may carry any string.
\<close>

record LinuxContainer =
  cid :: string
  handle :: string
  containerPath :: string
  properties :: "string \<rightharpoonup> string"
  graceTime :: int
  resources :: Resources
  state :: string
  events :: "string list"
  limits :: LimitsSnapshot
  netIns :: "NetInSpec list"
  netOuts :: "NetOutSpec list"
  processes :: "uint32 list"
  processIDCounter :: uint32
  oomNotifier :: bool

record BindMount =
  SrcPath :: string
  DstPath :: string
  ReadWrite :: bool
  OriginContainer :: bool

text \<open>\<open>warden.ContainerSpec\<close>, as \<open>Create\<close> reads it.\<close>

record ContainerSpec =
  specHandle :: string
  specGraceTime :: int
  specProperties :: "string \<rightharpoonup> string"
  specBindMounts :: "BindMount list"

section \<open>The backend: \<open>linux_backend.go\<close>\<close>

text \<open>
  \<open>LinuxBackend\<close> talks to its pool and to its containers through Go interfaces.  An
  interface is a record of state transformers over the state \<open>'w\<close> that lives behind it.
  \<open>Start\<close> works on the container in place; here it returns the container as it is
  afterwards.  The mutex around the \<open>containers\<close> map is not modelled: a call runs alone.
\<close>

record 'w ContainerPool =
  pool_Create :: "ContainerSpec \<Rightarrow> 'w \<Rightarrow> (error + LinuxContainer) \<times> 'w"
  pool_Destroy :: "LinuxContainer \<Rightarrow> 'w \<Rightarrow> error option \<times> 'w"
  container_Start :: "LinuxContainer \<Rightarrow> 'w \<Rightarrow> (error + LinuxContainer) \<times> 'w"

text \<open>
  What the backend does, in program order: its calls through the interfaces and its
  writes to the \<open>containers\<close> map.
\<close>

datatype call =
    CallPoolCreate ContainerSpec
  | CallStart LinuxContainer
  | CallPoolDestroy LinuxContainer
  | RegistryInsert string
  | RegistryDelete string

record 'w LinuxBackend =
  containers :: "string \<rightharpoonup> LinuxContainer"
  behind :: 'w
  calls :: "call list"

definition New :: "'w \<Rightarrow> 'w LinuxBackend" where
  "New w = \<lparr>containers = Map.empty, behind = w, calls = []\<rparr>"

definition Backend_Create ::
  "'w ContainerPool \<Rightarrow> ContainerSpec \<Rightarrow> 'w LinuxBackend \<Rightarrow> (error + LinuxContainer) \<times> 'w LinuxBackend"
where
  "Backend_Create P spec b =
     (case pool_Create P spec (behind b) of
        (Inl err, w1) \<Rightarrow>
          (Inl err, b\<lparr>behind := w1, calls := calls b @ [CallPoolCreate spec]\<rparr>)
      | (Inr container, w1) \<Rightarrow>
          (case container_Start P container w1 of
             (Inl err, w2) \<Rightarrow>
               (Inl err,
                b\<lparr>behind := w2, calls := calls b @ [CallPoolCreate spec, CallStart container]\<rparr>)
           | (Inr started, w2) \<Rightarrow>
               (Inr started,
                b\<lparr>containers := (containers b)(handle started \<mapsto> started),
                  behind := w2,
                  calls := calls b @ [CallPoolCreate spec, CallStart container,
                                      RegistryInsert (handle started)]\<rparr>)))"

definition Backend_Destroy ::
  "'w ContainerPool \<Rightarrow> string \<Rightarrow> 'w LinuxBackend \<Rightarrow> error option \<times> 'w LinuxBackend"
where
  "Backend_Destroy P h b =
     (case containers b h of
        None \<Rightarrow> (Some (UnknownHandleError h), b)
      | Some container \<Rightarrow>
          (case pool_Destroy P container (behind b) of
             (Some err, w1) \<Rightarrow>
               (Some err, b\<lparr>behind := w1, calls := calls b @ [CallPoolDestroy container]\<rparr>)
           | (None, w1) \<Rightarrow>
               (None,
                b\<lparr>containers := (containers b)(handle container := None),
                  behind := w1,
                  calls := calls b @ [CallPoolDestroy container,
                                      RegistryDelete (handle container)]\<rparr>)))"

definition Lookup :: "'w LinuxBackend \<Rightarrow> string \<Rightarrow> error + LinuxContainer" where
  "Lookup b h =
     (case containers b h of
        None \<Rightarrow> Inl (UnknownHandleError h)
      | Some container \<Rightarrow> Inr container)"

text \<open>\<open>precedes a b xs\<close>: \<open>b\<close> occurs in \<open>xs\<close> somewhere after the first \<open>a\<close>.\<close>

definition precedes :: "'a \<Rightarrow> 'a \<Rightarrow> 'a list \<Rightarrow> bool" where
  "precedes a b xs = (b \<in> set (drop 1 (dropWhile (\<lambda>x. x \<noteq> a) xs)))"

section \<open>Strings, paths and numbers of the Go library\<close>

definition newline :: char where
  "newline = CHR 0x0A"

definition dquote :: char where
  "dquote = CHR 0x22"

definition backslash :: char where
  "backslash = CHR 0x5C"

text \<open>\<open>strings.Join\<close>.\<close>

fun joinWith :: "string \<Rightarrow> string list \<Rightarrow> string" where
  "joinWith sep [] = []"
| "joinWith sep [x] = x"
| "joinWith sep (x # y # ys) = x @ sep @ joinWith sep (y # ys)"

text \<open>The elements of a path between slashes; \<open>cur\<close> is the element being read, reversed.\<close>

fun splitSlash :: "string \<Rightarrow> string \<Rightarrow> string list" where
  "splitSlash cur [] = [rev cur]"
| "splitSlash cur (c # cs) =
     (if c = CHR ''/'' then rev cur # splitSlash [] cs else splitSlash (c # cur) cs)"

text \<open>
  \<open>path.Clean\<close> on the elements: empty and \<open>.\<close> elements go, \<open>..\<close> removes the element
  before it, stays when a relative path begins with it and goes at the root
  (\<open>fromRoot\<close>).  \<open>acc\<close> holds the elements kept so far, last one first.
\<close>

fun cleanElems :: "bool \<Rightarrow> string list \<Rightarrow> string list \<Rightarrow> string list" where
  "cleanElems fromRoot acc [] = rev acc"
| "cleanElems fromRoot acc (e # es) =
     (if e = [] \<or> e = ''.'' then cleanElems fromRoot acc es
      else if e = ''..'' then
        (case acc of
           [] \<Rightarrow> if fromRoot then cleanElems fromRoot [] es else cleanElems fromRoot [''..''] es
         | a # as \<Rightarrow>
             if a = ''..'' then cleanElems fromRoot (''..'' # acc) es
             else cleanElems fromRoot as es)
      else cleanElems fromRoot (e # acc) es)"

definition pathClean :: "string \<Rightarrow> string" where
  "pathClean s =
     (let fromRoot = (case s of [] \<Rightarrow> False | c # _ \<Rightarrow> c = CHR ''/'');
          es = cleanElems fromRoot [] (splitSlash [] s)
      in if fromRoot then CHR ''/'' # joinWith ''/'' es
         else if es = [] then ''.''
         else joinWith ''/'' es)"

text \<open>\<open>path.Join\<close>: empty elements are ignored, the rest is joined by slashes and cleaned.\<close>

definition pathJoin :: "string list \<Rightarrow> string" where
  "pathJoin elems =
     (let es = filter (\<lambda>e. e \<noteq> []) elems
      in if es = [] then [] else pathClean (joinWith ''/'' es))"

text \<open>\<open>%d\<close> of \<open>fmt.Sprintf\<close> on an unsigned number.\<close>

function showNat :: "nat \<Rightarrow> string" where
  "showNat n =
     (if n < 10 then [''0123456789'' ! n]
      else showNat (n div 10) @ [''0123456789'' ! (n mod 10)])"
  by pat_completeness auto
termination
  by (relation "measure id") auto

declare showNat.simps [simp del]

section \<open>The container pool: \<open>container_pool.go\<close>\<close>

text \<open>\<open>exec.Cmd\<close>, with the fields the pool and the container fill in.\<close>

record Cmd =
  Path :: string
  Args :: "string list"
  Env :: "string list"
  Stdin :: string

text \<open>
  The pool and its containers act on the outside through collaborators that are Go
  interfaces: the three resource pools, the command runner and the cgroups manager.
  Every call on one of them is an event; the trace lists the events in program order.
\<close>

datatype event =
    UIDAcquire
  | UIDRelease uint32
  | UIDRemove uint32
  | NetworkAcquire
  | NetworkRelease Network
  | NetworkRemove Network
  | PortRelease uint32
  | PortRemove uint32
  | Run Cmd
  | Start Cmd
  | CgroupSet string string string

text \<open>
  What a collaborator answers may depend on everything that was called before, so each
  answer is a function of the trace up to the call.  \<open>Release\<close> returns nothing.
  \<open>runner_Stdout\<close> is what a command that was run wrote to its \<open>Stdout\<close> buffer.
\<close>

record Collaborators =
  uidPool_Acquire :: "event list \<Rightarrow> error + uint32"
  uidPool_Remove :: "event list \<Rightarrow> uint32 \<Rightarrow> error option"
  networkPool_Acquire :: "event list \<Rightarrow> error + Network"
  networkPool_Remove :: "event list \<Rightarrow> Network \<Rightarrow> error option"
  portPool_Remove :: "event list \<Rightarrow> uint32 \<Rightarrow> error option"
  runner_Run :: "event list \<Rightarrow> Cmd \<Rightarrow> error option"
  runner_Stdout :: "event list \<Rightarrow> Cmd \<Rightarrow> string"
  runner_Start :: "event list \<Rightarrow> Cmd \<Rightarrow> error option"
  cgroups_Set :: "event list \<Rightarrow> string \<Rightarrow> string \<Rightarrow> string \<Rightarrow> error option"

text \<open>
  The state outside the structs: the trace, and the counter of \<open>generateContainerIDs\<close>,
  which starts at the wall-clock time in nanoseconds and advances by one per id drawn.
\<close>

record world =
  trace :: "event list"
  containerNum :: "64 word"

record LinuxContainerPool =
  binPath :: string
  depotPath :: string
  rootFSPath :: string
  denyNetworks :: "string list"
  allowNetworks :: "string list"

definition emit :: "event list \<Rightarrow> world \<Rightarrow> world" where
  "emit evs w = w\<lparr>trace := trace w @ evs\<rparr>"

text \<open>\<open>p.runner.Run(cmd)\<close>.\<close>

definition run :: "Collaborators \<Rightarrow> Cmd \<Rightarrow> world \<Rightarrow> error option \<times> world" where
  "run C cmd w = (runner_Run C (trace w) cmd, emit [Run cmd] w)"

text \<open>
  One id of \<open>generateContainerIDs\<close>: eleven base-32 digits, digit \<open>i\<close> being
  \<open>(containerNum >> (55 - (i+1)*5)) & 31\<close> on a signed 64-bit number.
\<close>

definition containerID :: "64 word \<Rightarrow> string" where
  "containerID n =
     map (\<lambda>i. ''0123456789abcdefghijklmnopqrstuv'' !
                unat (and (signed_drop_bit (55 - (i + 1) * 5) n) 31))
         [0 ..< 11]"

definition PATH :: string where
  "PATH = ''PATH=/usr/local/sbin:/usr/local/bin:/usr/sbin:/usr/bin:/sbin:/bin''"

text \<open>
  Modelled from the spec: \<open>NewLinuxContainer\<close> (\<open>linux_container.go\<close> is not among the
  sources).  A new container is born with no events, limits, network rules or processes.
\<close>

definition NewLinuxContainer ::
  "string \<Rightarrow> string \<Rightarrow> string \<Rightarrow> (string \<rightharpoonup> string) \<Rightarrow> int \<Rightarrow> Resources \<Rightarrow> LinuxContainer"
where
  "NewLinuxContainer i h path props grace res =
     \<lparr>cid = i, handle = h, containerPath = path, properties = props, graceTime = grace,
      resources = res, state = ''born'', events = [],
      limits = \<lparr>Memory = None, Disk = None, Bandwidth = None, CPU = None\<rparr>,
      netIns = [], netOuts = [], processes = [], processIDCounter = 0,
      oomNotifier = False\<rparr>"

definition createCmd :: "LinuxContainerPool \<Rightarrow> string \<Rightarrow> uint32 \<Rightarrow> Network \<Rightarrow> Cmd" where
  "createCmd p i uid network =
     \<lparr>Path = pathJoin [binPath p, ''create.sh''],
      Args = [pathJoin [depotPath p, i]],
      Env = [''id='' @ i,
             ''rootfs_path='' @ rootFSPath p,
             ''user_uid='' @ showNat (unat uid),
             ''network_host_ip='' @ hostIP network,
             ''network_container_ip='' @ containerIP network,
             PATH],
      Stdin = []\<rparr>"

definition bash :: "string \<Rightarrow> Cmd" where
  "bash script = \<lparr>Path = ''bash'', Args = [''-c'', script], Env = [], Stdin = []\<rparr>"

fun writeBindMounts ::
  "Collaborators \<Rightarrow> string \<Rightarrow> BindMount list \<Rightarrow> world \<Rightarrow> error option \<times> world"
where
  "writeBindMounts C cpath [] w = (None, w)"
| "writeBindMounts C cpath (bm # bms) w =
     (let hook = pathJoin [cpath, ''lib'', ''hook-child-before-pivot.sh''];
          dstMount = pathJoin [cpath, ''mnt'', DstPath bm];
          srcPath = (if OriginContainer bm
                     then pathJoin [cpath, ''tmp'', ''rootfs'', SrcPath bm]
                     else SrcPath bm);
          mode = (if ReadWrite bm then ''rw'' else ''ro'')
      in case run C (bash (''echo >> '' @ hook)) w of
           (Some err, w1) \<Rightarrow> (Some err, w1)
         | (None, w1) \<Rightarrow>
       (case run C (bash (''echo mkdir -p '' @ dstMount @ '' >> '' @ hook)) w1 of
           (Some err, w2) \<Rightarrow> (Some err, w2)
         | (None, w2) \<Rightarrow>
       (case run C (bash (''echo mount -n --bind '' @ srcPath @ '' '' @ dstMount
                            @ '' >> '' @ hook)) w2 of
           (Some err, w3) \<Rightarrow> (Some err, w3)
         | (None, w3) \<Rightarrow>
       (case run C (bash (''echo mount -n --bind -o remount,'' @ mode @ '' '' @ srcPath
                            @ '' '' @ dstMount @ '' >> '' @ hook)) w3 of
           (Some err, w4) \<Rightarrow> (Some err, w4)
         | (None, w4) \<Rightarrow> writeBindMounts C cpath bms w4))))"

definition Create ::
  "LinuxContainerPool \<Rightarrow> Collaborators \<Rightarrow> ContainerSpec \<Rightarrow> world
     \<Rightarrow> (error + LinuxContainer) \<times> world"
where
  "Create p C spec w =
     (case uidPool_Acquire C (trace w) of
        Inl err \<Rightarrow> (Inl err, emit [UIDAcquire] w)
      | Inr uid \<Rightarrow>
     (let w1 = emit [UIDAcquire] w in
      case networkPool_Acquire C (trace w1) of
        Inl err \<Rightarrow> (Inl err, emit [NetworkAcquire, UIDRelease uid] w1)
      | Inr network \<Rightarrow>
     (let w2 = (emit [NetworkAcquire] w1)\<lparr>containerNum := containerNum w1 + 1\<rparr>;
          i = containerID (containerNum w1);
          cpath = pathJoin [depotPath p, i];
          h = (if specHandle spec \<noteq> [] then specHandle spec else i);
          container = NewLinuxContainer i h cpath (specProperties spec) (specGraceTime spec)
                        \<lparr>UID = uid, Network = network, Ports = []\<rparr>
      in case run C (createCmd p (cid container) uid network) w2 of
           (Some err, w3) \<Rightarrow> (Inl err, emit [UIDRelease uid, NetworkRelease network] w3)
         | (None, w3) \<Rightarrow>
       (case writeBindMounts C cpath (specBindMounts spec) w3 of
           (Some err, w4) \<Rightarrow> (Inl err, w4)
         | (None, w4) \<Rightarrow> (Inr container, w4)))))"

definition destroyCmd :: "LinuxContainerPool \<Rightarrow> string \<Rightarrow> Cmd" where
  "destroyCmd p i =
     \<lparr>Path = pathJoin [binPath p, ''destroy.sh''],
      Args = [pathJoin [depotPath p, i]],
      Env = [], Stdin = []\<rparr>"

definition destroy ::
  "LinuxContainerPool \<Rightarrow> Collaborators \<Rightarrow> string \<Rightarrow> world \<Rightarrow> error option \<times> world"
where
  "destroy p C i w = run C (destroyCmd p i) w"

definition Destroy ::
  "LinuxContainerPool \<Rightarrow> Collaborators \<Rightarrow> LinuxContainer \<Rightarrow> world \<Rightarrow> error option \<times> world"
where
  "Destroy p C container w =
     (case destroy p C (cid container) w of
        (Some err, w1) \<Rightarrow> (Some err, w1)
      | (None, w1) \<Rightarrow>
          (None,
           emit (map PortRelease (Ports (resources container))
                 @ [UIDRelease (UID (resources container)),
                    NetworkRelease (Network (resources container))]) w1))"

definition lsCmd :: "LinuxContainerPool \<Rightarrow> Cmd" where
  "lsCmd p = \<lparr>Path = ''ls'', Args = [depotPath p], Env = [], Stdin = []\<rparr>"

text \<open>
  The reads of \<open>reader.ReadString('\\n')\<close> over the whole buffer, each with its line break
  trimmed: a read that reaches the end of the buffer before a line break returns an error,
  which ends the loop, so an unterminated last line is not an entry.
\<close>

fun readStrings :: "string \<Rightarrow> string \<Rightarrow> string list" where
  "readStrings cur [] = []"
| "readStrings cur (c # cs) =
     (if c = newline then rev cur # readStrings [] cs else readStrings (c # cur) cs)"

fun pruneLoop ::
  "LinuxContainerPool \<Rightarrow> Collaborators \<Rightarrow> (string \<rightharpoonup> bool) \<Rightarrow> string list \<Rightarrow> world
     \<Rightarrow> error option \<times> world"
where
  "pruneLoop p C keep [] w = (None, w)"
| "pruneLoop p C keep (i # ids) w =
     (if i = ''tmp'' then pruneLoop p C keep ids w
      else case keep i of
        Some found \<Rightarrow> pruneLoop p C keep ids w
      | None \<Rightarrow>
          (case destroy p C i w of
             (Some err, w1) \<Rightarrow> (Some err, w1)
           | (None, w1) \<Rightarrow> pruneLoop p C keep ids w1))"

definition Prune ::
  "LinuxContainerPool \<Rightarrow> Collaborators \<Rightarrow> (string \<rightharpoonup> bool) \<Rightarrow> world \<Rightarrow> error option \<times> world"
where
  "Prune p C keep w =
     (case run C (lsCmd p) w of
        (Some err, w1) \<Rightarrow> (Some err, w1)
      | (None, w1) \<Rightarrow>
          pruneLoop p C keep (readStrings [] (runner_Stdout C (trace w) (lsCmd p))) w1)"

section \<open>The container: what the pool and the tests use of \<open>LinuxContainer\<close>\<close>

text \<open>\<open>cgroupsManager.Set(subsystem, name, value)\<close>.\<close>

definition cgroupSet ::
  "Collaborators \<Rightarrow> string \<Rightarrow> string \<Rightarrow> string \<Rightarrow> world \<Rightarrow> error option \<times> world"
where
  "cgroupSet C subsystem name v w =
     (cgroups_Set C (trace w) subsystem name v, emit [CgroupSet subsystem name v] w)"

text \<open>
  Modelled from the spec: \<open>LinuxContainer.LimitMemory\<close> with the command and the start of
  its OOM notifier (\<open>linux_container.go\<close> is not among the sources).  The notifier is
  \<open>bin/oom\<close> of the container on the container's memory cgroup; it is started unless it
  is already running, and a failure to start it is returned, as the test "when starting
  the oom notifier fails" expects.  Then come the three writes; only the outcome of the
  last one decides, and a limit that was applied is cached.  What the notifier does when
  it exits happens later and on its own thread; it is not part of the call.
\<close>

definition oomCmd :: "LinuxContainer \<Rightarrow> Cmd" where
  "oomCmd c =
     \<lparr>Path = pathJoin [containerPath c, ''bin'', ''oom''],
      Args = [''/tmp/warden/cgroup/memory/instance-'' @ cid c],
      Env = [], Stdin = []\<rparr>"

definition startOomNotifier ::
  "Collaborators \<Rightarrow> LinuxContainer \<Rightarrow> world \<Rightarrow> error option \<times> LinuxContainer \<times> world"
where
  "startOomNotifier C c w =
     (if oomNotifier c then (None, c, w)
      else case runner_Start C (trace w) (oomCmd c) of
        Some err \<Rightarrow> (Some err, c, emit [Start (oomCmd c)] w)
      | None \<Rightarrow> (None, c\<lparr>oomNotifier := True\<rparr>, emit [Start (oomCmd c)] w))"

definition LimitMemory ::
  "Collaborators \<Rightarrow> MemoryLimits \<Rightarrow> LinuxContainer \<Rightarrow> world
     \<Rightarrow> error option \<times> LinuxContainer \<times> world"
where
  "LimitMemory C lim c w =
     (case startOomNotifier C c w of
        (Some err, c1, w1) \<Rightarrow> (Some err, c1, w1)
      | (None, c1, w1) \<Rightarrow>
     (let limit = showNat (unat (LimitInBytes lim));
          (first, w2) = cgroupSet C ''memory'' ''memory.limit_in_bytes'' limit w1;
          (memsw, w3) = cgroupSet C ''memory'' ''memory.memsw.limit_in_bytes'' limit w2
      in case cgroupSet C ''memory'' ''memory.limit_in_bytes'' limit w3 of
           (Some err, w4) \<Rightarrow> (Some err, c1, w4)
         | (None, w4) \<Rightarrow> (None, c1\<lparr>limits := (limits c1)\<lparr>Memory := Some lim\<rparr>\<rparr>, w4)))"

text \<open>
  Modelled from the spec: the invocations of the container's \<open>net.sh\<close> with the
  environment of sections 4.3 and 6 (\<open>linux_container.go\<close> is not among the sources).  A
  port \<open>0\<close> of a net-out is written as the empty string.
\<close>

definition netCmd :: "LinuxContainer \<Rightarrow> string \<Rightarrow> string list \<Rightarrow> Cmd" where
  "netCmd c arg env =
     \<lparr>Path = pathJoin [containerPath c, ''net.sh''], Args = [arg], Env = env, Stdin = []\<rparr>"

definition netInCmd :: "LinuxContainer \<Rightarrow> NetInSpec \<Rightarrow> Cmd" where
  "netInCmd c n =
     netCmd c ''in'' [''HOST_PORT='' @ showNat (unat (HostPort n)),
                      ''CONTAINER_PORT='' @ showNat (unat (ContainerPort n))]"

definition netOutCmd :: "LinuxContainer \<Rightarrow> NetOutSpec \<Rightarrow> Cmd" where
  "netOutCmd c n =
     netCmd c ''out'' [''NETWORK='' @ NetOutNetwork n,
                       ''PORT='' @ (if NetOutPort n = 0 then [] else showNat (unat (NetOutPort n)))]"

text \<open>
  Modelled from the spec: \<open>LinuxContainer.Restore\<close> (\<open>linux_container.go\<close> is not among the
  sources).  It sets state, events, properties and processes with the process counter
  above every restored id, runs \<open>net.sh setup\<close>, replays every recorded net-in and net-out
  with its recorded ports, and applies the memory limit again; the first failure ends it
  and nothing is rolled back.
\<close>

fun restoreNetIns ::
  "Collaborators \<Rightarrow> NetInSpec list \<Rightarrow> LinuxContainer \<Rightarrow> world
     \<Rightarrow> error option \<times> LinuxContainer \<times> world"
where
  "restoreNetIns C [] c w = (None, c, w)"
| "restoreNetIns C (n # ns) c w =
     (case run C (netInCmd c n) w of
        (Some err, w1) \<Rightarrow> (Some err, c, w1)
      | (None, w1) \<Rightarrow> restoreNetIns C ns (c\<lparr>netIns := netIns c @ [n]\<rparr>) w1)"

fun restoreNetOuts ::
  "Collaborators \<Rightarrow> NetOutSpec list \<Rightarrow> LinuxContainer \<Rightarrow> world
     \<Rightarrow> error option \<times> LinuxContainer \<times> world"
where
  "restoreNetOuts C [] c w = (None, c, w)"
| "restoreNetOuts C (n # ns) c w =
     (case run C (netOutCmd c n) w of
        (Some err, w1) \<Rightarrow> (Some err, c, w1)
      | (None, w1) \<Rightarrow> restoreNetOuts C ns (c\<lparr>netOuts := netOuts c @ [n]\<rparr>) w1)"

definition LinuxContainer_Restore ::
  "Collaborators \<Rightarrow> ContainerSnapshot \<Rightarrow> LinuxContainer \<Rightarrow> world
     \<Rightarrow> error option \<times> LinuxContainer \<times> world"
where
  "LinuxContainer_Restore C snapshot c w =
     (let c1 = c\<lparr>state := State snapshot,
                  events := Events snapshot,
                  properties := Properties snapshot,
                  processes := Processes snapshot,
                  processIDCounter := fold (\<lambda>pid n. max n (pid + 1)) (Processes snapshot) 0\<rparr>
      in case run C (netCmd c1 ''setup'' []) w of
           (Some err, w1) \<Rightarrow> (Some err, c1, w1)
         | (None, w1) \<Rightarrow>
       (case restoreNetIns C (NetIns snapshot) c1 w1 of
           (Some err, c2, w2) \<Rightarrow> (Some err, c2, w2)
         | (None, c2, w2) \<Rightarrow>
       (case restoreNetOuts C (NetOuts snapshot) c2 w2 of
           (Some err, c3, w3) \<Rightarrow> (Some err, c3, w3)
         | (None, c3, w3) \<Rightarrow>
       (case Memory (Limits snapshot) of
           None \<Rightarrow> (None, c3, w3)
         | Some lim \<Rightarrow> LimitMemory C lim c3 w3))))"

text \<open>
  Modelled from the spec: \<open>LinuxContainer.Snapshot\<close> (\<open>linux_container.go\<close> is not among the
  sources).  It reads every field of the container into a \<open>ContainerSnapshot\<close> and writes
  that record with the JSON encoder \<open>enc\<close> of the Go library.
\<close>

definition snapshotOf :: "LinuxContainer \<Rightarrow> ContainerSnapshot" where
  "snapshotOf c =
     \<lparr>ID = cid c, Handle = handle c, GraceTime = graceTime c, State = state c,
      Events = events c, Limits = limits c, SnapResources = resources c,
      NetIns = netIns c, NetOuts = netOuts c, Processes = processes c,
      Properties = properties c\<rparr>"

definition Snapshot :: "(ContainerSnapshot \<Rightarrow> 'b) \<Rightarrow> LinuxContainer \<Rightarrow> 'b" where
  "Snapshot enc c = enc (snapshotOf c)"

text \<open>The fields of a container that a client can observe and that a snapshot is to keep.\<close>

definition observable ::
  "LinuxContainer \<Rightarrow>
     string \<times> string \<times> int \<times> string \<times> string list \<times> (string \<rightharpoonup> string)
       \<times> NetInSpec list \<times> NetOutSpec list \<times> MemoryLimits option \<times> Resources"
where
  "observable c =
     (cid c, handle c, graceTime c, state c, events c, properties c, netIns c, netOuts c,
      Memory (limits c), resources c)"

section \<open>Restoring a container in the pool\<close>

fun removePorts :: "Collaborators \<Rightarrow> uint32 list \<Rightarrow> world \<Rightarrow> error option \<times> world" where
  "removePorts C [] w = (None, w)"
| "removePorts C (port # ports) w =
     (case portPool_Remove C (trace w) port of
        Some err \<Rightarrow> (Some err, emit [PortRemove port] w)
      | None \<Rightarrow> removePorts C ports (emit [PortRemove port] w))"

text \<open>\<open>dec\<close> is the JSON decoder of the Go library on the reader's content.\<close>

definition Restore ::
  "LinuxContainerPool \<Rightarrow> Collaborators \<Rightarrow> ('b \<Rightarrow> error + ContainerSnapshot) \<Rightarrow> 'b \<Rightarrow> world
     \<Rightarrow> (error + LinuxContainer) \<times> world"
where
  "Restore p C dec snapshot w =
     (case dec snapshot of
        Inl err \<Rightarrow> (Inl err, w)
      | Inr containerSnapshot \<Rightarrow>
     (let i = ID containerSnapshot;
          res = SnapResources containerSnapshot
      in case uidPool_Remove C (trace w) (UID res) of
           Some err \<Rightarrow> (Inl err, emit [UIDRemove (UID res)] w)
         | None \<Rightarrow>
     (let w1 = emit [UIDRemove (UID res)] w
      in case networkPool_Remove C (trace w1) (Network res) of
           Some err \<Rightarrow> (Inl err, emit [NetworkRemove (Network res), UIDRelease (UID res)] w1)
         | None \<Rightarrow>
       (case removePorts C (Ports res) (emit [NetworkRemove (Network res)] w1) of
           (Some err, w3) \<Rightarrow>
             (Inl err,
              emit ([UIDRelease (UID res), NetworkRelease (Network res)]
                    @ map PortRelease (Ports res)) w3)
         | (None, w3) \<Rightarrow>
       (let cpath = pathJoin [depotPath p, i];
            container = NewLinuxContainer i (Handle containerSnapshot) cpath
                          (Properties containerSnapshot) (GraceTime containerSnapshot)
                          \<lparr>UID = UID res, Network = Network res, Ports = Ports res\<rparr>
        in case LinuxContainer_Restore C containerSnapshot container w3 of
             (Some err, restored, w4) \<Rightarrow> (Inl err, w4)
           | (None, restored, w4) \<Rightarrow> (Inr restored, w4))))))"

section \<open>The script of a process\<close>

record EnvironmentVariable =
  Key :: string
  Value :: string

record ProcessSpec =
  Script :: string
  EnvironmentVariables :: "EnvironmentVariable list"
  Privileged :: bool

text \<open>
  Modelled from the spec: the standard input that \<open>LinuxContainer.Run\<close> gives to
  \<open>iomux-spawn\<close> (\<open>linux_container.go\<close> is not among the sources): one \<open>export\<close> line per
  environment variable, then the script.  The test "runs the script with escaped
  environment variables" fixes what happens to a value: a double quote gets a backslash
  before it, a dollar sign and a line break stay as they are.
\<close>

definition escapeQuotes :: "string \<Rightarrow> string" where
  "escapeQuotes v = concat (map (\<lambda>c. if c = dquote then [backslash, dquote] else [c]) v)"

definition exportLine :: "EnvironmentVariable \<Rightarrow> string" where
  "exportLine ev =
     ''export '' @ Key ev @ ''='' @ [dquote] @ escapeQuotes (Value ev) @ [dquote, newline]"

definition runScript :: "ProcessSpec \<Rightarrow> string" where
  "runScript spec = concat (map exportLine (EnvironmentVariables spec)) @ Script spec"

text \<open>
  The spec's words for the same line: the value copied between the quotes unchanged.
\<close>

definition unescapedExportLine :: "EnvironmentVariable \<Rightarrow> string" where
  "unescapedExportLine ev =
     ''export '' @ Key ev @ ''='' @ [dquote] @ Value ev @ [dquote, newline]"

section \<open>The pool of this repository behind the backend\<close>

text \<open>
  Modelled from the spec: \<open>LinuxContainer.Start\<close> (\<open>linux_container.go\<close> is not among the
  sources).  It runs the container's \<open>start.sh\<close> with the environment of section 4.3 and
  makes the container active when the script succeeds.
\<close>

definition startCmd :: "LinuxContainer \<Rightarrow> Cmd" where
  "startCmd c =
     \<lparr>Path = pathJoin [containerPath c, ''start.sh''], Args = [],
      Env = [''id='' @ cid c, ''container_iface_mtu=1500'', PATH],
      Stdin = []\<rparr>"

definition LinuxContainer_Start ::
  "Collaborators \<Rightarrow> LinuxContainer \<Rightarrow> world \<Rightarrow> (error + LinuxContainer) \<times> world"
where
  "LinuxContainer_Start C c w =
     (case run C (startCmd c) w of
        (Some err, w1) \<Rightarrow> (Inl err, w1)
      | (None, w1) \<Rightarrow> (Inr (c\<lparr>state := ''active''\<rparr>), w1))"

text \<open>The \<open>LinuxContainerPool\<close> and its containers as what the backend sees of them.\<close>

definition linuxContainerPool :: "LinuxContainerPool \<Rightarrow> Collaborators \<Rightarrow> world ContainerPool" where
  "linuxContainerPool p C =
     \<lparr>pool_Create = Create p C, pool_Destroy = Destroy p C,
      container_Start = LinuxContainer_Start C\<rparr>"

section \<open>Well-formed paths and registries\<close>

text \<open>An event that is a command given to the runner, as opposed to a call on a pool.\<close>

fun isRun :: "event \<Rightarrow> bool" where
  "isRun (Run cmd) = True"
| "isRun ev = False"

text \<open>A single path element that \<open>path.Clean\<close> leaves alone.\<close>

definition normalElem :: "string \<Rightarrow> bool" where
  "normalElem e = (e \<noteq> [] \<and> e \<noteq> ''.'' \<and> e \<noteq> ''..'' \<and> CHR ''/'' \<notin> set e)"

text \<open>The absolute path made of the given elements.\<close>

definition rooted :: "string list \<Rightarrow> string" where
  "rooted es = CHR ''/'' # joinWith ''/'' es"

text \<open>
  \<open>Create\<close> and \<open>restore\<close> store a container under its own handle; \<open>keyed\<close> says that
  every entry of the registry is of that kind.
\<close>

definition keyed :: "'w LinuxBackend \<Rightarrow> bool" where
  "keyed b = (\<forall>h container. containers b h = Some container \<longrightarrow> handle container = h)"

section \<open>Fixtures of the test suites\<close>

definition disaster :: error where
  "disaster = OtherError ''oh no!''"

definition network0 :: Network where
  "network0 = \<lparr>ipNet = ''1.2.0.0/30'', hostIP = ''1.2.0.1'', containerIP = ''1.2.0.2''\<rparr>"

definition pool0 :: LinuxContainerPool where
  "pool0 =
     \<lparr>binPath = ''/root/path'', depotPath = ''/depot/path'', rootFSPath = ''/rootfs/path'',
      denyNetworks = [''1.1.0.0/16'', ''2.2.0.0/16''],
      allowNetworks = [''1.1.1.1/32'', ''2.2.2.2/32'']\<rparr>"

definition lsOutput :: string where
  "lsOutput =
     ''container-1'' @ [newline] @ ''container-2'' @ [newline] @ ''tmp'' @ [newline]
       @ ''container-3'' @ [newline]"

text \<open>Collaborators that never fail, as the fakes of the test suites are set up.\<close>

definition fakes :: Collaborators where
  "fakes =
     \<lparr>uidPool_Acquire = (\<lambda>tr. Inr 10000),
      uidPool_Remove = (\<lambda>tr uid. None),
      networkPool_Acquire = (\<lambda>tr. Inr network0),
      networkPool_Remove = (\<lambda>tr network. None),
      portPool_Remove = (\<lambda>tr port. None),
      runner_Run = (\<lambda>tr cmd. None),
      runner_Stdout = (\<lambda>tr cmd. if Path cmd = ''ls'' then lsOutput else []),
      runner_Start = (\<lambda>tr cmd. None),
      cgroups_Set = (\<lambda>tr subsystem name v. None)\<rparr>"

text \<open>The failures that the suites inject, one collaborator at a time.\<close>

definition fakesNetworkAcquireFails :: Collaborators where
  "fakesNetworkAcquireFails = fakes\<lparr>networkPool_Acquire := (\<lambda>tr. Inl disaster)\<rparr>"

definition fakesScriptFails :: "string \<Rightarrow> Collaborators" where
  "fakesScriptFails path =
     fakes\<lparr>runner_Run := (\<lambda>tr cmd. if Path cmd = path then Some disaster else None)\<rparr>"

definition fakesDestroyFails :: "string \<Rightarrow> Collaborators" where
  "fakesDestroyFails arg =
     fakes\<lparr>runner_Run := (\<lambda>tr cmd. if Args cmd = [arg] then Some disaster else None)\<rparr>"

definition fakesUIDRemoveFails :: Collaborators where
  "fakesUIDRemoveFails = fakes\<lparr>uidPool_Remove := (\<lambda>tr uid. Some disaster)\<rparr>"

definition fakesNetworkRemoveFails :: Collaborators where
  "fakesNetworkRemoveFails = fakes\<lparr>networkPool_Remove := (\<lambda>tr network. Some disaster)\<rparr>"

definition fakesPortRemoveFails :: "uint32 \<Rightarrow> Collaborators" where
  "fakesPortRemoveFails bad =
     fakes\<lparr>portPool_Remove := (\<lambda>tr port. if port = bad then Some disaster else None)\<rparr>"

definition fakesMemswFails :: Collaborators where
  "fakesMemswFails =
     fakes\<lparr>cgroups_Set :=
             (\<lambda>tr subsystem name v.
                if name = ''memory.memsw.limit_in_bytes'' then Some disaster else None)\<rparr>"

text \<open>The write of \<open>memory.limit_in_bytes\<close> fails once it has been written before.\<close>

definition fakesSecondLimitFails :: Collaborators where
  "fakesSecondLimitFails =
     fakes\<lparr>cgroups_Set :=
             (\<lambda>tr subsystem name v.
                if name = ''memory.limit_in_bytes'' \<and> CgroupSet subsystem name v \<in> set tr
                then Some disaster else None)\<rparr>"

definition limits102400 :: MemoryLimits where
  "limits102400 = \<lparr>LimitInBytes = 102400\<rparr>"

text \<open>The spec's words for pruning: what is to be destroyed, and destroying it in order.\<close>

definition prunable :: "(string \<rightharpoonup> bool) \<Rightarrow> string list \<Rightarrow> string list" where
  "prunable keep ids = filter (\<lambda>i. i \<noteq> ''tmp'' \<and> keep i = None) ids"

fun destroyEach ::
  "LinuxContainerPool \<Rightarrow> Collaborators \<Rightarrow> string list \<Rightarrow> world \<Rightarrow> error option \<times> world"
where
  "destroyEach p C [] w = (None, w)"
| "destroyEach p C (i # ids) w =
     (case destroy p C i w of
        (Some err, w1) \<Rightarrow> (Some err, w1)
      | (None, w1) \<Rightarrow> destroyEach p C ids w1)"

definition restoredNetwork :: Network where
  "restoredNetwork =
     \<lparr>ipNet = ''10.244.0.0/30'', hostIP = ''10.244.0.1'', containerIP = ''10.244.0.2''\<rparr>"

definition restoredSnapshot :: ContainerSnapshot where
  "restoredSnapshot =
     \<lparr>ID = ''some-restored-id'', Handle = ''some-restored-handle'', GraceTime = 1000000000,
      State = ''some-restored-state'',
      Events = [''some-restored-event'', ''some-other-restored-event''],
      Limits = \<lparr>Memory = None, Disk = None, Bandwidth = None, CPU = None\<rparr>,
      SnapResources =
        \<lparr>UID = 10000,
         Network = restoredNetwork,
         Ports = [61001, 61002, 61003]\<rparr>,
      NetIns = [], NetOuts = [], Processes = [],
      Properties = [''foo'' \<mapsto> ''bar'']\<rparr>"

definition world0 :: world where
  "world0 = \<lparr>trace = [], containerNum = 1414213562373095048\<rparr>"

definition container0 :: LinuxContainer where
  "container0 =
     (NewLinuxContainer ''some-id'' ''some-handle'' ''/depot/some-id''
        [''property-name'' \<mapsto> ''property-value''] 1000000000
        \<lparr>UID = 1234, Network = network0, Ports = [123, 456]\<rparr>)
     \<lparr>state := ''active'',
      events := [''out of memory''],
      limits := \<lparr>Memory = Some \<lparr>LimitInBytes = 1024\<rparr>, Disk = None, Bandwidth = None,
                 CPU = None\<rparr>,
      netIns := [\<lparr>HostPort = 1, ContainerPort = 2\<rparr>, \<lparr>HostPort = 3, ContainerPort = 4\<rparr>],
      netOuts := [\<lparr>NetOutNetwork = ''network-a'', NetOutPort = 1\<rparr>],
      processes := [0], processIDCounter := 1, oomNotifier := True\<rparr>"

definition spec0 :: ContainerSpec where
  "spec0 =
     \<lparr>specHandle = ''some-handle'', specGraceTime = 0, specProperties = Map.empty,
      specBindMounts = []\<rparr>"

text \<open>A pool behind the backend whose scripts all work, and one where everything fails.\<close>

definition created :: "ContainerSpec \<Rightarrow> LinuxContainer" where
  "created spec =
     NewLinuxContainer ''new-id'' (specHandle spec) ''/depot/new-id'' (specProperties spec)
       (specGraceTime spec) \<lparr>UID = 10000, Network = network0, Ports = []\<rparr>"

definition goodPool :: "nat ContainerPool" where
  "goodPool =
     \<lparr>pool_Create = (\<lambda>spec n. (Inr (created spec), Suc n)),
      pool_Destroy = (\<lambda>c n. (None, Suc n)),
      container_Start = (\<lambda>c n. (Inr (c\<lparr>state := ''active''\<rparr>), Suc n))\<rparr>"

definition badPool :: "nat ContainerPool" where
  "badPool =
     \<lparr>pool_Create = (\<lambda>spec n. (Inr (created spec), Suc n)),
      pool_Destroy = (\<lambda>c n. (Some disaster, Suc n)),
      container_Start = (\<lambda>c n. (Inl disaster, Suc n))\<rparr>"

definition emptyBackend :: "nat LinuxBackend" where
  "emptyBackend = New 0"

definition backend0 :: "nat LinuxBackend" where
  "backend0 = (New 0)\<lparr>containers := [''some-handle'' \<mapsto> container0]\<rparr>"

definition testProcessSpec :: ProcessSpec where
  "testProcessSpec =
     \<lparr>Script = ''/some/script'',
      EnvironmentVariables =
        [\<lparr>Key = ''ESCAPED'', Value = ''kurt '' @ [dquote] @ ''russell'' @ [dquote]\<rparr>,
         \<lparr>Key = ''INTERPOLATED'', Value = ''snake $PLISSKEN''\<rparr>,
         \<lparr>Key = ''UNESCAPED'', Value = ''isaac'' @ [newline] @ ''hayes''\<rparr>],
      Privileged = False\<rparr>"

section \<open>Properties of the backend\<close>

subsection \<open>The registry is keyed by handle\<close>

lemma keyed_New: "keyed (New w)"
  by (simp add: keyed_def New_def)

lemma keyed_Backend_Create: "keyed b \<Longrightarrow> keyed (snd (Backend_Create P spec b))"
  by (auto simp: keyed_def Backend_Create_def split: prod.splits sum.splits if_splits)

lemma keyed_Backend_Destroy: "keyed b \<Longrightarrow> keyed (snd (Backend_Destroy P h b))"
  by (auto simp: keyed_def Backend_Destroy_def split: prod.splits option.splits if_splits)

lemma keyed_handle: "keyed b \<Longrightarrow> containers b h = Some container \<Longrightarrow> handle container = h"
  by (simp add: keyed_def)

text \<open>
  Claim C8, as the code has it.  For a handle that is registered, \<open>Backend.Destroy\<close> calls
  \<open>ContainerPool.Destroy\<close> on the container first; when that call returns without an
  error, the container's handle is deleted from the registry, after the call, and for a
  container registered under its own handle (as every entry of a \<open>keyed\<close> registry is) a
  \<open>Lookup\<close> of the handle then fails.  For a handle that is not registered, the result is
  \<open>UnknownHandleError\<close> and the backend is as it was: no call reached the pool, and nothing
  behind it changed.
\<close>

theorem Backend_Destroy_pool_first:
  "(containers b h = None \<longrightarrow>
      Backend_Destroy P h b = (Some (UnknownHandleError h), b))
   \<and> (\<forall>container w1.
        containers b h = Some container
        \<longrightarrow> pool_Destroy P container (behind b) = (None, w1)
        \<longrightarrow> fst (Backend_Destroy P h b) = None
            \<and> calls (snd (Backend_Destroy P h b))
                = calls b @ [CallPoolDestroy container, RegistryDelete (handle container)]
            \<and> containers (snd (Backend_Destroy P h b))
                = (containers b)(handle container := None)
            \<and> behind (snd (Backend_Destroy P h b)) = w1
            \<and> (handle container = h
                 \<longrightarrow> Lookup (snd (Backend_Destroy P h b)) h = Inl (UnknownHandleError h)))"
  by (simp add: Backend_Destroy_def Lookup_def)

theorem Backend_Destroy_pool_first_witness:
  "containers backend0 ''some-handle'' = Some container0
   \<and> pool_Destroy goodPool container0 (behind backend0) = (None, 1)
   \<and> containers backend0 ''no-such-handle'' = None
   \<and> Backend_Destroy goodPool ''no-such-handle'' backend0
       = (Some (UnknownHandleError ''no-such-handle''), backend0)
   \<and> fst (Backend_Destroy goodPool ''some-handle'' backend0) = None
   \<and> calls (snd (Backend_Destroy goodPool ''some-handle'' backend0))
       = [CallPoolDestroy container0, RegistryDelete ''some-handle'']
   \<and> Lookup (snd (Backend_Destroy goodPool ''some-handle'' backend0)) ''some-handle''
       = Inl (UnknownHandleError ''some-handle'')"
proof -
  have reg: "containers backend0 ''some-handle'' = Some container0"
    by (simp add: backend0_def New_def)
  have ok: "pool_Destroy goodPool container0 (behind backend0) = (None, 1)"
    by (simp add: goodPool_def backend0_def New_def)
  have unreg: "containers backend0 ''no-such-handle'' = None"
    by (simp add: backend0_def New_def)
  have h: "handle container0 = ''some-handle''"
    by (simp add: container0_def NewLinuxContainer_def)
  have c: "calls backend0 = []"
    by (simp add: backend0_def New_def)
  note A = Backend_Destroy_pool_first [of backend0 "''no-such-handle''" goodPool]
  note B = Backend_Destroy_pool_first [of backend0 "''some-handle''" goodPool]
  from A unreg have 1: "Backend_Destroy goodPool ''no-such-handle'' backend0
       = (Some (UnknownHandleError ''no-such-handle''), backend0)" by blast
  from B reg ok have 2: "fst (Backend_Destroy goodPool ''some-handle'' backend0) = None
            \<and> calls (snd (Backend_Destroy goodPool ''some-handle'' backend0))
                = calls backend0 @ [CallPoolDestroy container0, RegistryDelete (handle container0)]
            \<and> (handle container0 = ''some-handle''
                 \<longrightarrow> Lookup (snd (Backend_Destroy goodPool ''some-handle'' backend0))
                       ''some-handle'' = Inl (UnknownHandleError ''some-handle''))" by blast
  from 2 h have 3: "Lookup (snd (Backend_Destroy goodPool ''some-handle'' backend0)) ''some-handle''
       = Inl (UnknownHandleError ''some-handle'')"
    by blast
  from reg ok unreg 1 2 3 h c show ?thesis by simp
qed

text \<open>
  Claim C8 as it is written has the registry entry deleted before the pool is called.
  On the registered handle of the test fixture the pool call comes first and the deletion
  second, and not the other way round.
\<close>

theorem Backend_Destroy_unregisters_first_counterexample:
  "precedes (CallPoolDestroy container0) (RegistryDelete ''some-handle'')
     (calls (snd (Backend_Destroy goodPool ''some-handle'' backend0)))
   \<and> \<not> precedes (RegistryDelete ''some-handle'') (CallPoolDestroy container0)
     (calls (snd (Backend_Destroy goodPool ''some-handle'' backend0)))"
  by (simp add: precedes_def Backend_Destroy_def backend0_def New_def goodPool_def
        container0_def NewLinuxContainer_def)

text \<open>
  Claim C9.  When \<open>ContainerPool.Destroy\<close> returns an error for a registered handle,
  \<open>Backend.Destroy\<close> returns that error, the registry is unchanged, and a \<open>Lookup\<close> of the
  same handle afterwards still returns the container.
\<close>

theorem Backend_Destroy_error_keeps_handle:
  assumes "containers b h = Some container"
      and "pool_Destroy P container (behind b) = (Some err, w1)"
  shows "fst (Backend_Destroy P h b) = Some err
         \<and> containers (snd (Backend_Destroy P h b)) = containers b
         \<and> Lookup (snd (Backend_Destroy P h b)) h = Inr container"
  using assms by (simp add: Backend_Destroy_def Lookup_def)

theorem Backend_Destroy_error_keeps_handle_witness:
  "containers backend0 ''some-handle'' = Some container0
   \<and> pool_Destroy badPool container0 (behind backend0) = (Some disaster, 1)
   \<and> fst (Backend_Destroy badPool ''some-handle'' backend0) = Some disaster
   \<and> Lookup (snd (Backend_Destroy badPool ''some-handle'' backend0)) ''some-handle''
       = Inr container0"
proof -
  have reg: "containers backend0 ''some-handle'' = Some container0"
    by (simp add: backend0_def New_def)
  have bad: "pool_Destroy badPool container0 (behind backend0) = (Some disaster, 1)"
    by (simp add: badPool_def backend0_def New_def)
  from Backend_Destroy_error_keeps_handle [OF reg bad] reg bad show ?thesis by simp
qed

text \<open>
  Claim C10, as the code has it.  When the pool has created a container and its \<open>Start\<close>
  fails, \<open>Backend.Create\<close> returns the error of \<open>Start\<close> and the registry is unchanged, so
  a \<open>Lookup\<close> of the container's handle answers what it answered before the call: that is
  \<open>UnknownHandleError\<close> when no container was registered under the handle.  The backend
  made two calls, the pool's \<open>Create\<close> and the container's \<open>Start\<close>; the pool's \<open>Destroy\<close>
  was not called, and the state behind the pool is the one \<open>Start\<close> left.
\<close>

theorem Backend_Create_start_fails:
  assumes "pool_Create P spec (behind b) = (Inr container, w1)"
      and "container_Start P container w1 = (Inl err, w2)"
  shows "fst (Backend_Create P spec b) = Inl err
         \<and> containers (snd (Backend_Create P spec b)) = containers b
         \<and> Lookup (snd (Backend_Create P spec b)) (handle container)
             = Lookup b (handle container)
         \<and> (containers b (handle container) = None
              \<longrightarrow> Lookup (snd (Backend_Create P spec b)) (handle container)
                    = Inl (UnknownHandleError (handle container)))
         \<and> calls (snd (Backend_Create P spec b))
             = calls b @ [CallPoolCreate spec, CallStart container]
         \<and> behind (snd (Backend_Create P spec b)) = w2"
  using assms by (simp add: Backend_Create_def Lookup_def)

theorem Backend_Create_start_fails_witness:
  "pool_Create badPool spec0 (behind emptyBackend) = (Inr (created spec0), 1)
   \<and> container_Start badPool (created spec0) 1 = (Inl disaster, 2)
   \<and> containers emptyBackend (handle (created spec0)) = None
   \<and> fst (Backend_Create badPool spec0 emptyBackend) = Inl disaster
   \<and> Lookup (snd (Backend_Create badPool spec0 emptyBackend)) ''some-handle''
       = Inl (UnknownHandleError ''some-handle'')
   \<and> calls (snd (Backend_Create badPool spec0 emptyBackend))
       = [CallPoolCreate spec0, CallStart (created spec0)]"
proof -
  have c: "pool_Create badPool spec0 (behind emptyBackend) = (Inr (created spec0), 1)"
    by (simp add: badPool_def emptyBackend_def New_def)
  have s: "container_Start badPool (created spec0) 1 = (Inl disaster, 2)"
    by (simp add: badPool_def)
  have h: "handle (created spec0) = ''some-handle''"
    by (simp add: created_def NewLinuxContainer_def spec0_def)
  have f: "containers emptyBackend (handle (created spec0)) = None"
    by (simp add: emptyBackend_def New_def)
  have k: "calls emptyBackend = []"
    by (simp add: emptyBackend_def New_def)
  from Backend_Create_start_fails [OF c s] f
  have "fst (Backend_Create badPool spec0 emptyBackend) = Inl disaster
        \<and> Lookup (snd (Backend_Create badPool spec0 emptyBackend)) (handle (created spec0))
            = Inl (UnknownHandleError (handle (created spec0)))
        \<and> calls (snd (Backend_Create badPool spec0 emptyBackend))
            = calls emptyBackend @ [CallPoolCreate spec0, CallStart (created spec0)]"
    by blast
  with c s f show ?thesis by (simp only: h k append_Nil simp_thms)
qed

text \<open>
  Claim C10 as it is written has \<open>Lookup\<close> of the new container's handle fail with
  \<open>UnknownHandleError\<close>.  \<open>Create\<close> does not check that the handle of the specification is
  free: with \<open>some-handle\<close> already registered, a \<open>Create\<close> for the same handle whose
  \<open>Start\<close> fails leaves the older container registered, and \<open>Lookup\<close> returns it.
\<close>

theorem Backend_Create_start_fails_lookup_counterexample:
  "container_Start badPool (created spec0) 1 = (Inl disaster, 2)
   \<and> fst (Backend_Create badPool spec0 backend0) = Inl disaster
   \<and> handle (created spec0) = ''some-handle''
   \<and> Lookup (snd (Backend_Create badPool spec0 backend0)) ''some-handle'' = Inr container0
   \<and> Lookup (snd (Backend_Create badPool spec0 backend0)) ''some-handle''
       \<noteq> Inl (UnknownHandleError ''some-handle'')"
  by (simp add: Backend_Create_def Lookup_def badPool_def backend0_def New_def created_def
        NewLinuxContainer_def spec0_def)

section \<open>Properties of the container pool\<close>

lemma trace_emit [simp]: "trace (emit evs w) = trace w @ evs"
  by (simp add: emit_def)

lemma containerNum_emit [simp]: "containerNum (emit evs w) = containerNum w"
  by (simp add: emit_def)

lemma emit_emit [simp]: "emit ys (emit xs w) = emit (xs @ ys) w"
  by (simp add: emit_def)

lemma emit_Nil [simp]: "emit [] w = w"
  by (simp add: emit_def)

lemma trace_containerNum_update [simp]: "trace (w\<lparr>containerNum := n\<rparr>) = trace w"
  by simp

subsection \<open>Joining clean paths\<close>

lemma splitSlash_elem:
  "CHR ''/'' \<notin> set e
   \<Longrightarrow> splitSlash cur (e @ CHR ''/'' # rest) = (rev cur @ e) # splitSlash [] rest"
  by (induction e arbitrary: cur) auto

lemma splitSlash_last:
  "CHR ''/'' \<notin> set e \<Longrightarrow> splitSlash cur e = [rev cur @ e]"
  by (induction e arbitrary: cur) auto

lemma splitSlash_joinWith:
  "es \<noteq> [] \<Longrightarrow> list_all normalElem es \<Longrightarrow> splitSlash [] (joinWith ''/'' es) = es"
proof (induction "''/''" es rule: joinWith.induct)
  case 1
  then show ?case by simp
next
  case (2 x)
  then show ?case by (simp add: splitSlash_last normalElem_def)
next
  case (3 x y ys)
  from 3 have "splitSlash [] (x @ CHR ''/'' # joinWith ''/'' (y # ys))
                 = x # splitSlash [] (joinWith ''/'' (y # ys))"
    by (simp add: splitSlash_elem normalElem_def)
  with 3 show ?case by simp
qed

lemma cleanElems_normal:
  "list_all normalElem es \<Longrightarrow> list_all normalElem acc
   \<Longrightarrow> cleanElems r acc es = rev acc @ es"
proof (induction es arbitrary: acc)
  case Nil
  then show ?case by simp
next
  case (Cons e es)
  then have e: "e \<noteq> []" "e \<noteq> ''.''" "e \<noteq> ''..''"
    by (auto simp: normalElem_def)
  from Cons have "cleanElems r (e # acc) es = rev (e # acc) @ es"
    by simp
  with e show ?case by simp
qed

lemma pathClean_rooted:
  assumes "es \<noteq> []" and "list_all normalElem es"
  shows "pathClean (rooted es) = rooted es"
proof -
  have "splitSlash [] (rooted es) = [] # es"
    using assms by (simp add: rooted_def splitSlash_joinWith)
  moreover have "cleanElems True [] ([] # es) = es"
    using assms by (simp add: cleanElems_normal)
  ultimately show ?thesis
    by (simp add: pathClean_def rooted_def)
qed

lemma joinWith_snoc:
  "es \<noteq> [] \<Longrightarrow> joinWith sep (es @ [e]) = joinWith sep es @ sep @ e"
  by (induction sep es rule: joinWith.induct) auto

lemma pathJoin_rooted:
  assumes "ds \<noteq> []" and "list_all normalElem ds" and "normalElem i"
  shows "pathJoin [rooted ds, i] = rooted ds @ ''/'' @ i"
proof -
  have i: "i \<noteq> []" using assms(3) by (simp add: normalElem_def)
  have "joinWith ''/'' [rooted ds, i] = rooted (ds @ [i])"
    using assms(1) by (simp add: rooted_def joinWith_snoc)
  moreover have "pathClean (rooted (ds @ [i])) = rooted (ds @ [i])"
    using assms by (intro pathClean_rooted) simp_all
  moreover have "rooted (ds @ [i]) = rooted ds @ ''/'' @ i"
    using assms(1) by (simp add: rooted_def joinWith_snoc)
  ultimately show ?thesis
    using i by (simp add: pathJoin_def rooted_def)
qed

subsection \<open>The ids of containers\<close>

lemma digit_below_32: "unat (and (w :: 64 word) 31) < 32"
proof -
  have "and w 31 \<le> 31" by (rule word_and_le1)
  then have "unat (and w 31) \<le> unat (31 :: 64 word)" by (simp add: word_le_nat_alt)
  then show ?thesis by simp
qed

lemma containerID_length: "length (containerID n) = 11"
  by (simp add: containerID_def)

lemma containerID_chars:
  "set (containerID n) \<subseteq> set ''0123456789abcdefghijklmnopqrstuv''"
proof -
  have "''0123456789abcdefghijklmnopqrstuv'' ! unat (and w 31)
          \<in> set ''0123456789abcdefghijklmnopqrstuv''" for w :: "64 word"
    using digit_below_32 [of w] by (intro nth_mem) simp
  then show ?thesis
    unfolding containerID_def by auto
qed

lemma containerID_normal: "normalElem (containerID n)"
proof -
  have "CHR ''/'' \<notin> set ''0123456789abcdefghijklmnopqrstuv''" by simp
  with containerID_chars [of n] have "CHR ''/'' \<notin> set (containerID n)" by blast
  moreover have "containerID n \<noteq> []" "containerID n \<noteq> ''.''" "containerID n \<noteq> ''..''"
    using containerID_length [of n] by auto
  ultimately show ?thesis by (simp add: normalElem_def)
qed

subsection \<open>Creating and destroying\<close>

lemma pool0_paths:
  "pathJoin [binPath pool0, ''create.sh''] = ''/root/path/create.sh''"
  "pathJoin [binPath pool0, ''destroy.sh''] = ''/root/path/destroy.sh''"
  "pathJoin [depotPath pool0, ''some-id''] = ''/depot/path/some-id''"
  by (simp_all add: pool0_def pathJoin_def pathClean_def)

text \<open>
  Claim C1.  \<open>Create\<close> first acquires a user id.  If acquiring the network then fails,
  the pool makes one more call, the release of that user id, and returns the error of
  the network pool.  If the network is acquired and \<open>create.sh\<close> fails, the pool releases
  the user id and the network, makes no further call, and returns the error of the
  script.
\<close>

theorem Create_failure_atomic:
  assumes "uidPool_Acquire C (trace w) = Inr uid"
  shows "(\<forall>err. networkPool_Acquire C (trace w @ [UIDAcquire]) = Inl err
            \<longrightarrow> Create p C spec w
                  = (Inl err, emit [UIDAcquire, NetworkAcquire, UIDRelease uid] w))
         \<and> (\<forall>network err.
              networkPool_Acquire C (trace w @ [UIDAcquire]) = Inr network
              \<longrightarrow> runner_Run C (trace w @ [UIDAcquire, NetworkAcquire])
                     (createCmd p (containerID (containerNum w)) uid network) = Some err
              \<longrightarrow> fst (Create p C spec w) = Inl err
                  \<and> trace (snd (Create p C spec w))
                      = trace w @ [UIDAcquire, NetworkAcquire,
                                   Run (createCmd p (containerID (containerNum w)) uid network),
                                   UIDRelease uid, NetworkRelease network])"
  using assms by (simp add: Create_def Let_def run_def NewLinuxContainer_def)

theorem Create_failure_atomic_witness:
  "uidPool_Acquire fakesNetworkAcquireFails (trace world0) = Inr 10000
   \<and> networkPool_Acquire fakesNetworkAcquireFails (trace world0 @ [UIDAcquire]) = Inl disaster
   \<and> Create pool0 fakesNetworkAcquireFails spec0 world0
       = (Inl disaster, emit [UIDAcquire, NetworkAcquire, UIDRelease 10000] world0)
   \<and> uidPool_Acquire (fakesScriptFails ''/root/path/create.sh'') (trace world0) = Inr 10000
   \<and> networkPool_Acquire (fakesScriptFails ''/root/path/create.sh'')
         (trace world0 @ [UIDAcquire]) = Inr network0
   \<and> fst (Create pool0 (fakesScriptFails ''/root/path/create.sh'') spec0 world0) = Inl disaster
   \<and> trace (snd (Create pool0 (fakesScriptFails ''/root/path/create.sh'') spec0 world0))
       = [UIDAcquire, NetworkAcquire,
          Run (createCmd pool0 (containerID (containerNum world0)) 10000 network0),
          UIDRelease 10000, NetworkRelease network0]"
proof -
  let ?N = fakesNetworkAcquireFails
  let ?S = "fakesScriptFails ''/root/path/create.sh''"
  let ?create = "createCmd pool0 (containerID (containerNum world0)) 10000 network0"
  have t: "trace world0 = []"
    by (simp add: world0_def)
  have u1: "uidPool_Acquire ?N (trace world0) = Inr 10000"
    by (simp add: fakesNetworkAcquireFails_def fakes_def)
  have n1: "networkPool_Acquire ?N (trace world0 @ [UIDAcquire]) = Inl disaster"
    by (simp add: fakesNetworkAcquireFails_def fakes_def)
  have u2: "uidPool_Acquire ?S (trace world0) = Inr 10000"
    by (simp add: fakesScriptFails_def fakes_def)
  have n2: "networkPool_Acquire ?S (trace world0 @ [UIDAcquire]) = Inr network0"
    by (simp add: fakesScriptFails_def fakes_def)
  have r2: "runner_Run ?S (trace world0 @ [UIDAcquire, NetworkAcquire]) ?create = Some disaster"
    by (simp add: fakesScriptFails_def fakes_def createCmd_def pool0_paths)
  from Create_failure_atomic [OF u1, of pool0 spec0] n1
  have first: "Create pool0 ?N spec0 world0
                = (Inl disaster, emit [UIDAcquire, NetworkAcquire, UIDRelease 10000] world0)"
    by blast
  from Create_failure_atomic [OF u2, of pool0 spec0] n2 r2
  have second: "fst (Create pool0 ?S spec0 world0) = Inl disaster
                \<and> trace (snd (Create pool0 ?S spec0 world0))
                    = trace world0 @ [UIDAcquire, NetworkAcquire, Run ?create,
                                      UIDRelease 10000, NetworkRelease network0]"
    by blast
  from u1 n1 first u2 n2 second show ?thesis
    by (simp only: t append_Nil simp_thms)
qed

text \<open>
  Claim C3.  \<open>Destroy\<close> runs \<open>destroy.sh\<close> of the pool's \<open>binPath\<close> with the one argument
  \<open>path.Join(depotPath, id)\<close>, which is \<open>depotPath/id\<close> when the depot path is an absolute
  path of plain elements and the id is a plain element (as every generated id is, by
  \<open>containerID_normal\<close>).  When the script succeeds, every port of the container's
  port list is released, in order, then the user id, then the network.  When the script
  fails, its error is returned and running the script is the only call made: nothing is
  released.
\<close>

theorem Destroy_releases:
  "Path (destroyCmd p (cid container)) = pathJoin [binPath p, ''destroy.sh'']
   \<and> Args (destroyCmd p (cid container)) = [pathJoin [depotPath p, cid container]]
   \<and> (\<forall>ds. depotPath p = rooted ds \<longrightarrow> ds \<noteq> [] \<longrightarrow> list_all normalElem ds
            \<longrightarrow> normalElem (cid container)
            \<longrightarrow> Args (destroyCmd p (cid container)) = [depotPath p @ ''/'' @ cid container])
   \<and> (runner_Run C (trace w) (destroyCmd p (cid container)) = None
        \<longrightarrow> Destroy p C container w
              = (None,
                 emit (Run (destroyCmd p (cid container))
                       # map PortRelease (Ports (resources container))
                       @ [UIDRelease (UID (resources container)),
                          NetworkRelease (Network (resources container))]) w))
   \<and> (\<forall>err. runner_Run C (trace w) (destroyCmd p (cid container)) = Some err
        \<longrightarrow> Destroy p C container w = (Some err, emit [Run (destroyCmd p (cid container))] w))"
  by (simp add: Destroy_def destroy_def run_def destroyCmd_def pathJoin_rooted)

theorem Destroy_releases_witness:
  "depotPath pool0 = rooted [''depot'', ''path'']
   \<and> list_all normalElem [''depot'', ''path''] \<and> normalElem (cid container0)
   \<and> Args (destroyCmd pool0 (cid container0)) = [''/depot/path/some-id'']
   \<and> runner_Run fakes (trace world0) (destroyCmd pool0 (cid container0)) = None
   \<and> Destroy pool0 fakes container0 world0
       = (None,
          emit [Run (destroyCmd pool0 ''some-id''), PortRelease 123, PortRelease 456,
                UIDRelease 1234, NetworkRelease network0] world0)
   \<and> runner_Run (fakesScriptFails ''/root/path/destroy.sh'') (trace world0)
         (destroyCmd pool0 (cid container0)) = Some disaster
   \<and> Destroy pool0 (fakesScriptFails ''/root/path/destroy.sh'') container0 world0
       = (Some disaster, emit [Run (destroyCmd pool0 ''some-id'')] world0)"
proof -
  let ?S = "fakesScriptFails ''/root/path/destroy.sh''"
  have c: "cid container0 = ''some-id''"
    by (simp add: container0_def NewLinuxContainer_def)
  have r: "resources container0 = \<lparr>UID = 1234, Network = network0, Ports = [123, 456]\<rparr>"
    by (simp add: container0_def NewLinuxContainer_def)
  have ok: "runner_Run fakes (trace world0) (destroyCmd pool0 (cid container0)) = None"
    by (simp add: fakes_def)
  have bad: "runner_Run ?S (trace world0) (destroyCmd pool0 (cid container0)) = Some disaster"
    by (simp add: fakesScriptFails_def fakes_def destroyCmd_def c pool0_paths)
  note D1 = Destroy_releases [of pool0 container0 fakes world0]
  note D2 = Destroy_releases [of pool0 container0 ?S world0]
  have d: "depotPath pool0 = rooted [''depot'', ''path'']"
    by (simp add: pool0_def rooted_def)
  have e: "list_all normalElem [''depot'', ''path'']" "normalElem (cid container0)"
    by (simp_all add: normalElem_def c)
  from D1 d e have "Args (destroyCmd pool0 (cid container0))
                      = [depotPath pool0 @ ''/'' @ cid container0]"
    by blast
  then have a: "Args (destroyCmd pool0 (cid container0)) = [''/depot/path/some-id'']"
    by (simp add: c pool0_def)
  from D1 ok have good: "Destroy pool0 fakes container0 world0
       = (None,
          emit (Run (destroyCmd pool0 (cid container0))
                # map PortRelease (Ports (resources container0))
                @ [UIDRelease (UID (resources container0)),
                   NetworkRelease (Network (resources container0))]) world0)"
    by blast
  from D2 bad have failed: "Destroy pool0 ?S container0 world0
       = (Some disaster, emit [Run (destroyCmd pool0 (cid container0))] world0)"
    by blast
  from d e a ok good bad failed show ?thesis
    by (simp add: c r)
qed

subsection \<open>Removing the ports of a snapshot\<close>

lemma removePorts_first_failure:
  "k < length ports
   \<Longrightarrow> (\<forall>j<k. portPool_Remove C (trace w @ map PortRemove (take j ports)) (ports ! j) = None)
   \<Longrightarrow> portPool_Remove C (trace w @ map PortRemove (take k ports)) (ports ! k) = Some err
   \<Longrightarrow> removePorts C ports w = (Some err, emit (map PortRemove (take (Suc k) ports)) w)"
proof (induction ports arbitrary: k w)
  case Nil
  then show ?case by simp
next
  case (Cons port ports)
  show ?case
  proof (cases k)
    case 0
    with Cons.prems show ?thesis by simp
  next
    case (Suc k')
    from Cons.prems(2) Suc have head: "portPool_Remove C (trace w) port = None"
      by (auto dest: spec [of _ 0])
    have less: "k' < length ports" using Cons.prems(1) Suc by simp
    have earlier: "\<forall>j<k'. portPool_Remove C (trace (emit [PortRemove port] w)
                     @ map PortRemove (take j ports)) (ports ! j) = None"
    proof (intro allI impI)
      fix j assume "j < k'"
      with Cons.prems(2) Suc
      have "portPool_Remove C (trace w @ map PortRemove (take (Suc j) (port # ports)))
              ((port # ports) ! Suc j) = None"
        by (metis Suc_less_eq)
      then show "portPool_Remove C (trace (emit [PortRemove port] w)
                     @ map PortRemove (take j ports)) (ports ! j) = None"
        by simp
    qed
    from Cons.prems(3) Suc
    have fails: "portPool_Remove C (trace (emit [PortRemove port] w)
                     @ map PortRemove (take k' ports)) (ports ! k') = Some err"
      by simp
    from Cons.IH [OF less earlier fails] head Suc show ?thesis by simp
  qed
qed

lemma removePorts_all:
  "(\<forall>j<length ports.
      portPool_Remove C (trace w @ map PortRemove (take j ports)) (ports ! j) = None)
   \<Longrightarrow> removePorts C ports w = (None, emit (map PortRemove ports) w)"
proof (induction ports arbitrary: w)
  case Nil
  then show ?case by simp
next
  case (Cons port ports)
  from Cons.prems have head: "portPool_Remove C (trace w) port = None"
    by (auto dest: spec [of _ 0])
  have rest: "\<forall>j<length ports. portPool_Remove C (trace (emit [PortRemove port] w)
                     @ map PortRemove (take j ports)) (ports ! j) = None"
  proof (intro allI impI)
    fix j assume "j < length ports"
    with Cons.prems
    have "portPool_Remove C (trace w @ map PortRemove (take (Suc j) (port # ports)))
            ((port # ports) ! Suc j) = None"
      by (metis Suc_less_eq length_Cons)
    then show "portPool_Remove C (trace (emit [PortRemove port] w)
                     @ map PortRemove (take j ports)) (ports ! j) = None"
      by simp
  qed
  from Cons.IH [OF rest] head show ?case by simp
qed


subsection \<open>What a container call adds to the trace\<close>

lemma restoreNetIns_extends:
  "\<exists>evs. trace (snd (snd (restoreNetIns C ns c w))) = trace w @ evs"
proof (induction ns arbitrary: c w)
  case Nil
  then show ?case by simp
next
  case (Cons n ns)
  show ?case
  proof (cases "runner_Run C (trace w) (netInCmd c n)")
    case None
    from Cons.IH [of "c\<lparr>netIns := netIns c @ [n]\<rparr>" "emit [Run (netInCmd c n)] w"]
    obtain evs where "trace (snd (snd (restoreNetIns C ns (c\<lparr>netIns := netIns c @ [n]\<rparr>)
                        (emit [Run (netInCmd c n)] w))))
                      = trace (emit [Run (netInCmd c n)] w) @ evs"
      by blast
    with None show ?thesis by (simp add: run_def)
  next
    case (Some err)
    then show ?thesis by (simp add: run_def)
  qed
qed

lemma restoreNetOuts_extends:
  "\<exists>evs. trace (snd (snd (restoreNetOuts C ns c w))) = trace w @ evs"
proof (induction ns arbitrary: c w)
  case Nil
  then show ?case by simp
next
  case (Cons n ns)
  show ?case
  proof (cases "runner_Run C (trace w) (netOutCmd c n)")
    case None
    from Cons.IH [of "c\<lparr>netOuts := netOuts c @ [n]\<rparr>" "emit [Run (netOutCmd c n)] w"]
    obtain evs where "trace (snd (snd (restoreNetOuts C ns (c\<lparr>netOuts := netOuts c @ [n]\<rparr>)
                        (emit [Run (netOutCmd c n)] w))))
                      = trace (emit [Run (netOutCmd c n)] w) @ evs"
      by blast
    with None show ?thesis by (simp add: run_def)
  next
    case (Some err)
    then show ?thesis by (simp add: run_def)
  qed
qed

lemma LimitMemory_extends:
  "\<exists>evs. trace (snd (snd (LimitMemory C lim c w))) = trace w @ evs"
  by (simp add: LimitMemory_def startOomNotifier_def cgroupSet_def Let_def
        split: option.splits)

lemma LinuxContainer_Restore_extends:
  "\<exists>evs. trace (snd (snd (LinuxContainer_Restore C s c w))) = trace w @ evs"
proof -
  define c1 where "c1 = c\<lparr>state := State s, events := Events s, properties := Properties s,
      processes := Processes s,
      processIDCounter := fold (\<lambda>pid n. max n (pid + 1)) (Processes s) 0\<rparr>"
  define w1 where "w1 = emit [Run (netCmd c1 ''setup'' [])] w"
  obtain r2 c2 w2 where ins: "restoreNetIns C (NetIns s) c1 w1 = (r2, c2, w2)"
    by (metis prod_cases3)
  obtain r3 c3 w3 where outs: "restoreNetOuts C (NetOuts s) c2 w2 = (r3, c3, w3)"
    by (metis prod_cases3)
  from restoreNetIns_extends [of C "NetIns s" c1 w1] ins
  obtain e2 where t2: "trace w2 = trace w1 @ e2" by auto
  from restoreNetOuts_extends [of C "NetOuts s" c2 w2] outs
  obtain e3 where t3: "trace w3 = trace w2 @ e3" by auto
  have t1: "trace w1 = trace w @ [Run (netCmd c1 ''setup'' [])]"
    by (simp add: w1_def)
  show ?thesis
  proof (cases "runner_Run C (trace w) (netCmd c1 ''setup'' [])")
    case (Some err)
    then show ?thesis
      by (simp add: LinuxContainer_Restore_def Let_def run_def c1_def [symmetric])
  next
    case None
    note setupOk = None
    show ?thesis
    proof (cases r2)
      case (Some err)
      with setupOk ins t1 t2 show ?thesis
        by (simp add: LinuxContainer_Restore_def Let_def run_def c1_def [symmetric]
              w1_def [symmetric])
    next
      case None
      note insOk = None
      show ?thesis
      proof (cases r3)
        case (Some err)
        with setupOk ins insOk outs t1 t2 t3 show ?thesis
          by (simp add: LinuxContainer_Restore_def Let_def run_def c1_def [symmetric]
                w1_def [symmetric])
      next
        case None
        note outsOk = None
        show ?thesis
        proof (cases "Memory (Limits s)")
          case None
          with setupOk ins insOk outs outsOk t1 t2 t3 show ?thesis
            by (simp add: LinuxContainer_Restore_def Let_def run_def c1_def [symmetric]
                  w1_def [symmetric])
        next
          case (Some lim)
          from LimitMemory_extends [of C lim c3 w3]
          obtain e4 where "trace (snd (snd (LimitMemory C lim c3 w3))) = trace w3 @ e4"
            by blast
          with Some setupOk ins insOk outs outsOk t1 t2 t3 show ?thesis
            by (simp add: LinuxContainer_Restore_def Let_def run_def c1_def [symmetric]
                  w1_def [symmetric])
        qed
      qed
    qed
  qed
qed

text \<open>
  Claim C4.  With the snapshot decoded, \<open>Restore\<close> removes the user id, then the network,
  then the ports in the order of the snapshot's list.  If removing the user id fails, the
  error is returned and nothing was called besides.  If removing the network fails, the
  user id is released and the error is returned.  If the port at position \<open>k\<close> is the first
  whose removal fails, the ports up to and including it were asked for, then the user id,
  the network and every port of the list are released (the ports removed before among
  them) and the error of that port is returned.  If every removal succeeds, the trace
  goes on from the removals in that order.
\<close>

theorem Restore_removal_failures:
  assumes "dec snapshot = Inr s"
  shows
    "(\<forall>err. uidPool_Remove C (trace w) (UID (SnapResources s)) = Some err
        \<longrightarrow> Restore p C dec snapshot w
              = (Inl err, emit [UIDRemove (UID (SnapResources s))] w))
     \<and> (uidPool_Remove C (trace w) (UID (SnapResources s)) = None
        \<longrightarrow> (\<forall>err. networkPool_Remove C (trace w @ [UIDRemove (UID (SnapResources s))])
                     (Network (SnapResources s)) = Some err
               \<longrightarrow> Restore p C dec snapshot w
                     = (Inl err,
                        emit [UIDRemove (UID (SnapResources s)),
                              NetworkRemove (Network (SnapResources s)),
                              UIDRelease (UID (SnapResources s))] w)))
     \<and> (uidPool_Remove C (trace w) (UID (SnapResources s)) = None
        \<longrightarrow> networkPool_Remove C (trace w @ [UIDRemove (UID (SnapResources s))])
              (Network (SnapResources s)) = None
        \<longrightarrow> (\<forall>k err.
               k < length (Ports (SnapResources s))
               \<longrightarrow> (\<forall>j<k. portPool_Remove C
                            (trace w @ [UIDRemove (UID (SnapResources s)),
                                        NetworkRemove (Network (SnapResources s))]
                               @ map PortRemove (take j (Ports (SnapResources s))))
                            (Ports (SnapResources s) ! j) = None)
               \<longrightarrow> portPool_Remove C
                     (trace w @ [UIDRemove (UID (SnapResources s)),
                                 NetworkRemove (Network (SnapResources s))]
                        @ map PortRemove (take k (Ports (SnapResources s))))
                     (Ports (SnapResources s) ! k) = Some err
               \<longrightarrow> Restore p C dec snapshot w
                     = (Inl err,
                        emit ([UIDRemove (UID (SnapResources s)),
                               NetworkRemove (Network (SnapResources s))]
                              @ map PortRemove (take (Suc k) (Ports (SnapResources s)))
                              @ [UIDRelease (UID (SnapResources s)),
                                 NetworkRelease (Network (SnapResources s))]
                              @ map PortRelease (Ports (SnapResources s))) w))
          \<and> ((\<forall>j<length (Ports (SnapResources s)).
                  portPool_Remove C
                    (trace w @ [UIDRemove (UID (SnapResources s)),
                                NetworkRemove (Network (SnapResources s))]
                       @ map PortRemove (take j (Ports (SnapResources s))))
                    (Ports (SnapResources s) ! j) = None)
              \<longrightarrow> (\<exists>rest. trace (snd (Restore p C dec snapshot w))
                           = trace w @ [UIDRemove (UID (SnapResources s)),
                                        NetworkRemove (Network (SnapResources s))]
                               @ map PortRemove (Ports (SnapResources s)) @ rest)))"
proof (intro conjI allI impI)
  fix err
  assume "uidPool_Remove C (trace w) (UID (SnapResources s)) = Some err"
  with assms show "Restore p C dec snapshot w
                    = (Inl err, emit [UIDRemove (UID (SnapResources s))] w)"
    by (simp add: Restore_def Let_def)
next
  fix err
  assume "uidPool_Remove C (trace w) (UID (SnapResources s)) = None"
     and "networkPool_Remove C (trace w @ [UIDRemove (UID (SnapResources s))])
            (Network (SnapResources s)) = Some err"
  with assms show "Restore p C dec snapshot w
                     = (Inl err,
                        emit [UIDRemove (UID (SnapResources s)),
                              NetworkRemove (Network (SnapResources s)),
                              UIDRelease (UID (SnapResources s))] w)"
    by (simp add: Restore_def Let_def)
next
  fix k err
  let ?w2 = "emit [UIDRemove (UID (SnapResources s)),
                   NetworkRemove (Network (SnapResources s))] w"
  assume uid: "uidPool_Remove C (trace w) (UID (SnapResources s)) = None"
     and net: "networkPool_Remove C (trace w @ [UIDRemove (UID (SnapResources s))])
                 (Network (SnapResources s)) = None"
     and k: "k < length (Ports (SnapResources s))"
     and earlier: "\<forall>j<k. portPool_Remove C
                            (trace w @ [UIDRemove (UID (SnapResources s)),
                                        NetworkRemove (Network (SnapResources s))]
                               @ map PortRemove (take j (Ports (SnapResources s))))
                            (Ports (SnapResources s) ! j) = None"
     and fails: "portPool_Remove C
                     (trace w @ [UIDRemove (UID (SnapResources s)),
                                 NetworkRemove (Network (SnapResources s))]
                        @ map PortRemove (take k (Ports (SnapResources s))))
                     (Ports (SnapResources s) ! k) = Some err"
  have "removePorts C (Ports (SnapResources s)) ?w2
          = (Some err, emit (map PortRemove (take (Suc k) (Ports (SnapResources s)))) ?w2)"
    using k earlier fails by (intro removePorts_first_failure) simp_all
  with assms uid net show "Restore p C dec snapshot w
                     = (Inl err,
                        emit ([UIDRemove (UID (SnapResources s)),
                               NetworkRemove (Network (SnapResources s))]
                              @ map PortRemove (take (Suc k) (Ports (SnapResources s)))
                              @ [UIDRelease (UID (SnapResources s)),
                                 NetworkRelease (Network (SnapResources s))]
                              @ map PortRelease (Ports (SnapResources s))) w)"
    by (simp add: Restore_def Let_def)
next
  let ?w2 = "emit [UIDRemove (UID (SnapResources s)),
                   NetworkRemove (Network (SnapResources s))] w"
  let ?w3 = "emit (map PortRemove (Ports (SnapResources s))) ?w2"
  let ?c = "NewLinuxContainer (ID s) (Handle s) (pathJoin [depotPath p, ID s])
              (Properties s) (GraceTime s)
              \<lparr>UID = UID (SnapResources s), Network = Network (SnapResources s),
               Ports = Ports (SnapResources s)\<rparr>"
  assume uid: "uidPool_Remove C (trace w) (UID (SnapResources s)) = None"
     and net: "networkPool_Remove C (trace w @ [UIDRemove (UID (SnapResources s))])
                 (Network (SnapResources s)) = None"
     and all: "\<forall>j<length (Ports (SnapResources s)).
                  portPool_Remove C
                    (trace w @ [UIDRemove (UID (SnapResources s)),
                                NetworkRemove (Network (SnapResources s))]
                       @ map PortRemove (take j (Ports (SnapResources s))))
                    (Ports (SnapResources s) ! j) = None"
  have ports: "removePorts C (Ports (SnapResources s)) ?w2 = (None, ?w3)"
    using all by (intro removePorts_all) simp
  from LinuxContainer_Restore_extends [of C s ?c ?w3]
  obtain evs where ext: "trace (snd (snd (LinuxContainer_Restore C s ?c ?w3))) = trace ?w3 @ evs"
    by blast
  obtain r c' w4 where res: "LinuxContainer_Restore C s ?c ?w3 = (r, c', w4)"
    by (metis prod_cases3)
  with ext have "trace w4 = trace ?w3 @ evs" by simp
  with assms uid net ports res
  have "trace (snd (Restore p C dec snapshot w))
          = trace w @ [UIDRemove (UID (SnapResources s)),
                       NetworkRemove (Network (SnapResources s))]
              @ map PortRemove (Ports (SnapResources s)) @ evs"
    by (cases r) (simp_all add: Restore_def Let_def)
  then show "\<exists>rest. trace (snd (Restore p C dec snapshot w))
                           = trace w @ [UIDRemove (UID (SnapResources s)),
                                        NetworkRemove (Network (SnapResources s))]
                               @ map PortRemove (Ports (SnapResources s)) @ rest"
    by blast
qed

theorem Restore_removal_failures_witness:
  "uidPool_Remove fakesUIDRemoveFails (trace world0) (UID (SnapResources restoredSnapshot))
     = Some disaster
   \<and> Restore pool0 fakesUIDRemoveFails Inr restoredSnapshot world0
       = (Inl disaster, emit [UIDRemove 10000] world0)
   \<and> networkPool_Remove fakesNetworkRemoveFails (trace world0 @ [UIDRemove 10000])
         restoredNetwork = Some disaster
   \<and> Restore pool0 fakesNetworkRemoveFails Inr restoredSnapshot world0
       = (Inl disaster,
          emit [UIDRemove 10000, NetworkRemove restoredNetwork, UIDRelease 10000] world0)
   \<and> portPool_Remove (fakesPortRemoveFails 61002)
         (trace world0 @ [UIDRemove 10000, NetworkRemove restoredNetwork, PortRemove 61001])
         61002 = Some disaster
   \<and> Restore pool0 (fakesPortRemoveFails 61002) Inr restoredSnapshot world0
       = (Inl disaster,
          emit [UIDRemove 10000, NetworkRemove restoredNetwork,
                PortRemove 61001, PortRemove 61002,
                UIDRelease 10000, NetworkRelease restoredNetwork,
                PortRelease 61001, PortRelease 61002, PortRelease 61003] world0)
   \<and> (\<exists>rest. trace (snd (Restore pool0 fakes Inr restoredSnapshot world0))
         = [UIDRemove 10000, NetworkRemove restoredNetwork,
            PortRemove 61001, PortRemove 61002, PortRemove 61003] @ rest)"
proof -
  let ?P = "fakesPortRemoveFails 61002"
  have res: "SnapResources restoredSnapshot
               = \<lparr>UID = 10000, Network = restoredNetwork, Ports = [61001, 61002, 61003]\<rparr>"
    by (simp add: restoredSnapshot_def)
  have t: "trace world0 = []"
    by (simp add: world0_def)
  note R = Restore_removal_failures [where dec = Inr and snapshot = restoredSnapshot
             and s = restoredSnapshot and p = pool0 and w = world0, OF refl]
  have u1: "uidPool_Remove fakesUIDRemoveFails (trace world0)
              (UID (SnapResources restoredSnapshot)) = Some disaster"
    by (simp add: fakesUIDRemoveFails_def fakes_def)
  from R [of fakesUIDRemoveFails] u1
  have a: "Restore pool0 fakesUIDRemoveFails Inr restoredSnapshot world0
             = (Inl disaster, emit [UIDRemove (UID (SnapResources restoredSnapshot))] world0)"
    by blast
  have u2: "uidPool_Remove fakesNetworkRemoveFails (trace world0)
              (UID (SnapResources restoredSnapshot)) = None"
    by (simp add: fakesNetworkRemoveFails_def fakes_def)
  have n2: "networkPool_Remove fakesNetworkRemoveFails
              (trace world0 @ [UIDRemove (UID (SnapResources restoredSnapshot))])
              (Network (SnapResources restoredSnapshot)) = Some disaster"
    by (simp add: fakesNetworkRemoveFails_def fakes_def)
  from R [of fakesNetworkRemoveFails] u2 n2
  have b: "Restore pool0 fakesNetworkRemoveFails Inr restoredSnapshot world0
             = (Inl disaster,
                emit [UIDRemove (UID (SnapResources restoredSnapshot)),
                      NetworkRemove (Network (SnapResources restoredSnapshot)),
                      UIDRelease (UID (SnapResources restoredSnapshot))] world0)"
    by blast
  have u3: "uidPool_Remove ?P (trace world0) (UID (SnapResources restoredSnapshot)) = None"
    by (simp add: fakesPortRemoveFails_def fakes_def)
  have n3: "networkPool_Remove ?P
              (trace world0 @ [UIDRemove (UID (SnapResources restoredSnapshot))])
              (Network (SnapResources restoredSnapshot)) = None"
    by (simp add: fakesPortRemoveFails_def fakes_def)
  have k3: "(1::nat) < length (Ports (SnapResources restoredSnapshot))"
    by (simp add: res)
  have e3: "\<forall>j<(1::nat). portPool_Remove ?P
              (trace world0 @ [UIDRemove (UID (SnapResources restoredSnapshot)),
                               NetworkRemove (Network (SnapResources restoredSnapshot))]
                 @ map PortRemove (take j (Ports (SnapResources restoredSnapshot))))
              (Ports (SnapResources restoredSnapshot) ! j) = None"
    by (simp add: res fakesPortRemoveFails_def fakes_def)
  have f3: "portPool_Remove ?P
              (trace world0 @ [UIDRemove (UID (SnapResources restoredSnapshot)),
                               NetworkRemove (Network (SnapResources restoredSnapshot))]
                 @ map PortRemove (take 1 (Ports (SnapResources restoredSnapshot))))
              (Ports (SnapResources restoredSnapshot) ! 1) = Some disaster"
    by (simp add: res fakesPortRemoveFails_def fakes_def)
  from R [of ?P] u3 n3 k3 e3 f3
  have c: "Restore pool0 ?P Inr restoredSnapshot world0
             = (Inl disaster,
                emit ([UIDRemove (UID (SnapResources restoredSnapshot)),
                       NetworkRemove (Network (SnapResources restoredSnapshot))]
                      @ map PortRemove (take (Suc 1) (Ports (SnapResources restoredSnapshot)))
                      @ [UIDRelease (UID (SnapResources restoredSnapshot)),
                         NetworkRelease (Network (SnapResources restoredSnapshot))]
                      @ map PortRelease (Ports (SnapResources restoredSnapshot))) world0)"
    by blast
  have u4: "uidPool_Remove fakes (trace world0) (UID (SnapResources restoredSnapshot)) = None"
    by (simp add: fakes_def)
  have n4: "networkPool_Remove fakes
              (trace world0 @ [UIDRemove (UID (SnapResources restoredSnapshot))])
              (Network (SnapResources restoredSnapshot)) = None"
    by (simp add: fakes_def)
  have p4: "\<forall>j<length (Ports (SnapResources restoredSnapshot)).
              portPool_Remove fakes
                (trace world0 @ [UIDRemove (UID (SnapResources restoredSnapshot)),
                                 NetworkRemove (Network (SnapResources restoredSnapshot))]
                   @ map PortRemove (take j (Ports (SnapResources restoredSnapshot))))
                (Ports (SnapResources restoredSnapshot) ! j) = None"
    by (simp add: fakes_def)
  from R [of fakes] u4 n4 p4
  have d: "\<exists>rest. trace (snd (Restore pool0 fakes Inr restoredSnapshot world0))
             = trace world0 @ [UIDRemove (UID (SnapResources restoredSnapshot)),
                               NetworkRemove (Network (SnapResources restoredSnapshot))]
                 @ map PortRemove (Ports (SnapResources restoredSnapshot)) @ rest"
    by blast
  have n2': "networkPool_Remove fakesNetworkRemoveFails (trace world0 @ [UIDRemove 10000])
               restoredNetwork = Some disaster"
    using n2 by (simp add: res)
  have f3': "portPool_Remove ?P
               (trace world0 @ [UIDRemove 10000, NetworkRemove restoredNetwork, PortRemove 61001])
               61002 = Some disaster"
    using f3 by (simp add: res)
  from u1 a n2' b f3' c d show ?thesis
    by (simp add: res t)
qed

subsection \<open>Pruning\<close>

lemma readStrings_line:
  "newline \<notin> set e \<Longrightarrow> readStrings cur (e @ newline # rest) = (rev cur @ e) # readStrings [] rest"
  by (induction e arbitrary: cur) auto

lemma readStrings_lines:
  "(\<forall>e \<in> set entries. newline \<notin> set e)
   \<Longrightarrow> readStrings [] (concat (map (\<lambda>e. e @ [newline]) entries)) = entries"
  by (induction entries) (simp_all add: readStrings_line)

lemma readStrings_unterminated:
  "newline \<notin> set e \<Longrightarrow> readStrings cur e = []"
  by (induction e arbitrary: cur) auto

lemma pruneLoop_destroyEach:
  "pruneLoop p C keep ids w = destroyEach p C (prunable keep ids) w"
  by (induction ids arbitrary: w) (auto simp: prunable_def split: option.splits prod.splits)

lemma destroyEach_first_failure:
  "k < length ids
   \<Longrightarrow> (\<forall>j<k. runner_Run C (trace w @ map (\<lambda>i. Run (destroyCmd p i)) (take j ids))
                 (destroyCmd p (ids ! j)) = None)
   \<Longrightarrow> runner_Run C (trace w @ map (\<lambda>i. Run (destroyCmd p i)) (take k ids))
         (destroyCmd p (ids ! k)) = Some err
   \<Longrightarrow> destroyEach p C ids w
       = (Some err, emit (map (\<lambda>i. Run (destroyCmd p i)) (take (Suc k) ids)) w)"
proof (induction ids arbitrary: k w)
  case Nil
  then show ?case by simp
next
  case (Cons i ids)
  show ?case
  proof (cases k)
    case 0
    with Cons.prems show ?thesis by (simp add: destroy_def run_def)
  next
    case (Suc k')
    let ?w1 = "emit [Run (destroyCmd p i)] w"
    from Cons.prems(2) Suc have head: "runner_Run C (trace w) (destroyCmd p i) = None"
      by (auto dest: spec [of _ 0])
    have less: "k' < length ids" using Cons.prems(1) Suc by simp
    have earlier: "\<forall>j<k'. runner_Run C (trace ?w1 @ map (\<lambda>i. Run (destroyCmd p i)) (take j ids))
                     (destroyCmd p (ids ! j)) = None"
    proof (intro allI impI)
      fix j assume "j < k'"
      with Cons.prems(2) Suc
      have "runner_Run C (trace w @ map (\<lambda>i. Run (destroyCmd p i)) (take (Suc j) (i # ids)))
              (destroyCmd p ((i # ids) ! Suc j)) = None"
        by (metis Suc_less_eq)
      then show "runner_Run C (trace ?w1 @ map (\<lambda>i. Run (destroyCmd p i)) (take j ids))
                     (destroyCmd p (ids ! j)) = None"
        by simp
    qed
    from Cons.prems(3) Suc
    have fails: "runner_Run C (trace ?w1 @ map (\<lambda>i. Run (destroyCmd p i)) (take k' ids))
                     (destroyCmd p (ids ! k')) = Some err"
      by simp
    from Cons.IH [OF less earlier fails] head Suc show ?thesis
      by (simp add: destroy_def run_def)
  qed
qed

lemma destroyEach_all:
  "(\<forall>j<length ids. runner_Run C (trace w @ map (\<lambda>i. Run (destroyCmd p i)) (take j ids))
                      (destroyCmd p (ids ! j)) = None)
   \<Longrightarrow> destroyEach p C ids w = (None, emit (map (\<lambda>i. Run (destroyCmd p i)) ids) w)"
proof (induction ids arbitrary: w)
  case Nil
  then show ?case by simp
next
  case (Cons i ids)
  let ?w1 = "emit [Run (destroyCmd p i)] w"
  from Cons.prems have head: "runner_Run C (trace w) (destroyCmd p i) = None"
    by (auto dest: spec [of _ 0])
  have rest: "\<forall>j<length ids. runner_Run C (trace ?w1 @ map (\<lambda>i. Run (destroyCmd p i)) (take j ids))
                     (destroyCmd p (ids ! j)) = None"
  proof (intro allI impI)
    fix j assume "j < length ids"
    with Cons.prems
    have "runner_Run C (trace w @ map (\<lambda>i. Run (destroyCmd p i)) (take (Suc j) (i # ids)))
            (destroyCmd p ((i # ids) ! Suc j)) = None"
      by (metis Suc_less_eq length_Cons)
    then show "runner_Run C (trace ?w1 @ map (\<lambda>i. Run (destroyCmd p i)) (take j ids))
                     (destroyCmd p (ids ! j)) = None"
      by simp
  qed
  from Cons.IH [OF rest] head show ?case
    by (simp add: destroy_def run_def)
qed

text \<open>
  Claim C5.  Let \<open>ls\<close> of the depot succeed, and let \<open>ids\<close> be the entries of its output
  that are neither \<open>tmp\<close> nor a key of the keep-set, in the order of the listing.  If
  every \<open>destroy.sh\<close> succeeds, \<open>Prune\<close> runs it on exactly these entries, in that
  order, and on nothing else, and returns no error.  If the entry at position \<open>k\<close> of
  \<open>ids\<close> is the first whose \<open>destroy.sh\<close> fails, \<open>Prune\<close> has run it on the entries up to and
  including that one, runs nothing after it, and returns that error.
\<close>

theorem Prune_destroys_unkept:
  assumes ls: "runner_Run C (trace w) (lsCmd p) = None"
      and ids: "ids = filter (\<lambda>i. i \<noteq> ''tmp'' \<and> keep i = None)
                        (readStrings [] (runner_Stdout C (trace w) (lsCmd p)))"
  shows
    "((\<forall>j<length ids.
         runner_Run C (trace w @ Run (lsCmd p) # map (\<lambda>i. Run (destroyCmd p i)) (take j ids))
           (destroyCmd p (ids ! j)) = None)
      \<longrightarrow> Prune p C keep w
            = (None, emit (Run (lsCmd p) # map (\<lambda>i. Run (destroyCmd p i)) ids) w))
     \<and> (\<forall>k err.
          k < length ids
          \<longrightarrow> (\<forall>j<k. runner_Run C
                       (trace w @ Run (lsCmd p) # map (\<lambda>i. Run (destroyCmd p i)) (take j ids))
                       (destroyCmd p (ids ! j)) = None)
          \<longrightarrow> runner_Run C
                (trace w @ Run (lsCmd p) # map (\<lambda>i. Run (destroyCmd p i)) (take k ids))
                (destroyCmd p (ids ! k)) = Some err
          \<longrightarrow> Prune p C keep w
                = (Some err,
                   emit (Run (lsCmd p) # map (\<lambda>i. Run (destroyCmd p i)) (take (Suc k) ids)) w))"
proof -
  let ?w1 = "emit [Run (lsCmd p)] w"
  have prune: "Prune p C keep w = destroyEach p C ids ?w1"
    using ls ids by (simp add: Prune_def run_def pruneLoop_destroyEach prunable_def)
  show ?thesis
  proof (intro conjI allI impI)
    assume "\<forall>j<length ids.
         runner_Run C (trace w @ Run (lsCmd p) # map (\<lambda>i. Run (destroyCmd p i)) (take j ids))
           (destroyCmd p (ids ! j)) = None"
    then have "destroyEach p C ids ?w1 = (None, emit (map (\<lambda>i. Run (destroyCmd p i)) ids) ?w1)"
      by (intro destroyEach_all) simp
    with prune show "Prune p C keep w
            = (None, emit (Run (lsCmd p) # map (\<lambda>i. Run (destroyCmd p i)) ids) w)"
      by simp
  next
    fix k err
    assume "k < length ids"
       and "\<forall>j<k. runner_Run C
                       (trace w @ Run (lsCmd p) # map (\<lambda>i. Run (destroyCmd p i)) (take j ids))
                       (destroyCmd p (ids ! j)) = None"
       and "runner_Run C
                (trace w @ Run (lsCmd p) # map (\<lambda>i. Run (destroyCmd p i)) (take k ids))
                (destroyCmd p (ids ! k)) = Some err"
    then have "destroyEach p C ids ?w1
                = (Some err, emit (map (\<lambda>i. Run (destroyCmd p i)) (take (Suc k) ids)) ?w1)"
      by (intro destroyEach_first_failure) simp_all
    with prune show "Prune p C keep w
                = (Some err,
                   emit (Run (lsCmd p) # map (\<lambda>i. Run (destroyCmd p i)) (take (Suc k) ids)) w)"
      by simp
  qed
qed

lemma lsOutput_entries:
  "readStrings [] (runner_Stdout fakes tr (lsCmd pool0))
     = [''container-1'', ''container-2'', ''tmp'', ''container-3'']"
  "readStrings [] (runner_Stdout (fakesDestroyFails arg) tr (lsCmd pool0))
     = [''container-1'', ''container-2'', ''tmp'', ''container-3'']"
  by (simp_all add: fakes_def fakesDestroyFails_def lsCmd_def lsOutput_def newline_def)

lemma pool0_destroy_args:
  "Args (destroyCmd pool0 ''container-1'') = [''/depot/path/container-1'']"
  "Args (destroyCmd pool0 ''container-2'') = [''/depot/path/container-2'']"
  "Args (destroyCmd pool0 ''container-3'') = [''/depot/path/container-3'']"
  "Args (lsCmd pool0) = [''/depot/path'']"
  by (simp_all add: destroyCmd_def lsCmd_def pool0_def pathJoin_def pathClean_def)

theorem Prune_destroys_unkept_witness:
  "runner_Run fakes (trace world0) (lsCmd pool0) = None
   \<and> Prune pool0 fakes [''container-2'' \<mapsto> True] world0
       = (None,
          emit [Run (lsCmd pool0), Run (destroyCmd pool0 ''container-1''),
                Run (destroyCmd pool0 ''container-3'')] world0)
   \<and> runner_Run (fakesDestroyFails ''/depot/path/container-2'') (trace world0) (lsCmd pool0)
       = None
   \<and> runner_Run (fakesDestroyFails ''/depot/path/container-2'')
         (trace world0 @ [Run (lsCmd pool0), Run (destroyCmd pool0 ''container-1'')])
         (destroyCmd pool0 ''container-2'') = Some disaster
   \<and> Prune pool0 (fakesDestroyFails ''/depot/path/container-2'') Map.empty world0
       = (Some disaster,
          emit [Run (lsCmd pool0), Run (destroyCmd pool0 ''container-1''),
                Run (destroyCmd pool0 ''container-2'')] world0)"
proof -
  let ?F = "fakesDestroyFails ''/depot/path/container-2''"
  let ?keep = "[''container-2'' \<mapsto> True]"
  let ?kept = "[''container-1'', ''container-3'']"
  let ?all = "[''container-1'', ''container-2'', ''container-3'']"
  have ls1: "runner_Run fakes (trace world0) (lsCmd pool0) = None"
    by (simp add: fakes_def)
  have ids1: "?kept = filter (\<lambda>i. i \<noteq> ''tmp'' \<and> ?keep i = None)
                        (readStrings [] (runner_Stdout fakes (trace world0) (lsCmd pool0)))"
    by (simp add: lsOutput_entries)
  have all1: "\<forall>j<length ?kept.
         runner_Run fakes
           (trace world0 @ Run (lsCmd pool0) # map (\<lambda>i. Run (destroyCmd pool0 i)) (take j ?kept))
           (destroyCmd pool0 (?kept ! j)) = None"
    by (simp add: fakes_def)
  from Prune_destroys_unkept [OF ls1 ids1] all1
  have a: "Prune pool0 fakes ?keep world0
            = (None, emit (Run (lsCmd pool0) # map (\<lambda>i. Run (destroyCmd pool0 i)) ?kept) world0)"
    by blast
  have ls2: "runner_Run ?F (trace world0) (lsCmd pool0) = None"
    by (simp add: fakesDestroyFails_def fakes_def pool0_destroy_args)
  have ids2: "?all = filter (\<lambda>i. i \<noteq> ''tmp'' \<and> Map.empty i = None)
                        (readStrings [] (runner_Stdout ?F (trace world0) (lsCmd pool0)))"
    by (simp add: lsOutput_entries)
  have k2: "(1::nat) < length ?all"
    by simp
  have e2: "\<forall>j<(1::nat). runner_Run ?F
              (trace world0 @ Run (lsCmd pool0) # map (\<lambda>i. Run (destroyCmd pool0 i)) (take j ?all))
              (destroyCmd pool0 (?all ! j)) = None"
    by (simp add: fakesDestroyFails_def fakes_def pool0_destroy_args)
  have f2: "runner_Run ?F
              (trace world0 @ Run (lsCmd pool0) # map (\<lambda>i. Run (destroyCmd pool0 i)) (take 1 ?all))
              (destroyCmd pool0 (?all ! 1)) = Some disaster"
    by (simp add: fakesDestroyFails_def fakes_def pool0_destroy_args)
  from Prune_destroys_unkept [OF ls2 ids2] k2 e2 f2
  have b: "Prune pool0 ?F Map.empty world0
            = (Some disaster,
               emit (Run (lsCmd pool0) # map (\<lambda>i. Run (destroyCmd pool0 i)) (take (Suc 1) ?all))
                 world0)"
    by blast
  have f2': "runner_Run ?F
         (trace world0 @ [Run (lsCmd pool0), Run (destroyCmd pool0 ''container-1'')])
         (destroyCmd pool0 ''container-2'') = Some disaster"
    using f2 by simp
  from ls1 a ls2 f2' b show ?thesis
    by simp
qed

subsection \<open>Limiting memory\<close>

text \<open>
  Claim C6.  When the OOM notifier is already running or is started without error,
  \<open>LimitMemory\<close> writes to the cgroup exactly three times, in this order:
  \<open>memory.limit_in_bytes\<close>, \<open>memory.memsw.limit_in_bytes\<close>, \<open>memory.limit_in_bytes\<close> again,
  each with the limit in decimal.  The three writes happen whatever the first two
  answer, and what the call returns is what the third write returns: a failure of the
  \<open>memsw\<close> write (or of the first write) is ignored, a failure of the second write of
  \<open>memory.limit_in_bytes\<close> is the error of the call.
\<close>

theorem LimitMemory_three_writes:
  assumes "oomNotifier c \<or> runner_Start C (trace w) (oomCmd c) = None"
      and "limit = showNat (unat (LimitInBytes lim))"
      and "started = (if oomNotifier c then trace w else trace w @ [Start (oomCmd c)])"
  shows "trace (snd (snd (LimitMemory C lim c w)))
           = started @ [CgroupSet ''memory'' ''memory.limit_in_bytes'' limit,
                        CgroupSet ''memory'' ''memory.memsw.limit_in_bytes'' limit,
                        CgroupSet ''memory'' ''memory.limit_in_bytes'' limit]
         \<and> fst (LimitMemory C lim c w)
           = cgroups_Set C
               (started @ [CgroupSet ''memory'' ''memory.limit_in_bytes'' limit,
                           CgroupSet ''memory'' ''memory.memsw.limit_in_bytes'' limit])
               ''memory'' ''memory.limit_in_bytes'' limit"
  using assms
  by (auto simp: LimitMemory_def startOomNotifier_def cgroupSet_def Let_def
           split: option.splits)

lemma LimitMemory_ok:
  "LimitMemory C lim c w = (None, c', w')
   \<Longrightarrow> c' = c\<lparr>limits := (limits c)\<lparr>Memory := Some lim\<rparr>, oomNotifier := True\<rparr>"
  by (auto simp: LimitMemory_def startOomNotifier_def cgroupSet_def Let_def
           split: option.splits if_splits)

lemma LimitMemory_succeeds:
  "(\<forall>tr cmd. runner_Start C tr cmd = None)
   \<Longrightarrow> (\<forall>tr s n v. cgroups_Set C tr s n v = None)
   \<Longrightarrow> fst (LimitMemory C lim c w) = None"
  by (simp add: LimitMemory_def startOomNotifier_def cgroupSet_def Let_def)

subsection \<open>Restoring a container from its own snapshot\<close>

lemma restoreNetIns_ok:
  "restoreNetIns C ns c w = (None, c', w') \<Longrightarrow> c' = c\<lparr>netIns := netIns c @ ns\<rparr>"
proof (induction ns arbitrary: c w)
  case Nil
  then show ?case by simp
next
  case (Cons n ns)
  then show ?case
    by (cases "runner_Run C (trace w) (netInCmd c n)") (auto simp: run_def dest: Cons.IH)
qed

lemma restoreNetOuts_ok:
  "restoreNetOuts C ns c w = (None, c', w') \<Longrightarrow> c' = c\<lparr>netOuts := netOuts c @ ns\<rparr>"
proof (induction ns arbitrary: c w)
  case Nil
  then show ?case by simp
next
  case (Cons n ns)
  then show ?case
    by (cases "runner_Run C (trace w) (netOutCmd c n)") (auto simp: run_def dest: Cons.IH)
qed

lemma restoreNetIns_succeeds:
  "(\<forall>tr cmd. runner_Run C tr cmd = None) \<Longrightarrow> fst (restoreNetIns C ns c w) = None"
  by (induction ns arbitrary: c w) (simp_all add: run_def)

lemma restoreNetOuts_succeeds:
  "(\<forall>tr cmd. runner_Run C tr cmd = None) \<Longrightarrow> fst (restoreNetOuts C ns c w) = None"
  by (induction ns arbitrary: c w) (simp_all add: run_def)

lemma LinuxContainer_Restore_ok:
  assumes "LinuxContainer_Restore C s c w = (None, c', w')"
  shows "cid c' = cid c \<and> handle c' = handle c \<and> graceTime c' = graceTime c
         \<and> resources c' = resources c
         \<and> state c' = State s \<and> events c' = Events s \<and> properties c' = Properties s
         \<and> netIns c' = netIns c @ NetIns s \<and> netOuts c' = netOuts c @ NetOuts s
         \<and> Memory (limits c')
             = (case Memory (Limits s) of None \<Rightarrow> Memory (limits c) | Some lim \<Rightarrow> Some lim)"
proof -
  define c1 where "c1 = c\<lparr>state := State s, events := Events s, properties := Properties s,
      processes := Processes s,
      processIDCounter := fold (\<lambda>pid n. max n (pid + 1)) (Processes s) 0\<rparr>"
  define w1 where "w1 = emit [Run (netCmd c1 ''setup'' [])] w"
  obtain r2 c2 w2 where ins: "restoreNetIns C (NetIns s) c1 w1 = (r2, c2, w2)"
    by (metis prod_cases3)
  obtain r3 c3 w3 where outs: "restoreNetOuts C (NetOuts s) c2 w2 = (r3, c3, w3)"
    by (metis prod_cases3)
  from assms ins outs
  have run1: "runner_Run C (trace w) (netCmd c1 ''setup'' []) = None"
    and r2: "r2 = None" and r3: "r3 = None"
    and last: "(case Memory (Limits s) of None \<Rightarrow> (None, c3, w3)
                | Some lim \<Rightarrow> LimitMemory C lim c3 w3) = (None, c', w')"
    by (auto simp: LinuxContainer_Restore_def Let_def run_def c1_def [symmetric]
          w1_def [symmetric] split: option.splits)
  from ins r2 have c2: "c2 = c1\<lparr>netIns := netIns c1 @ NetIns s\<rparr>"
    by (auto dest: restoreNetIns_ok)
  from outs r3 have c3: "c3 = c2\<lparr>netOuts := netOuts c2 @ NetOuts s\<rparr>"
    by (auto dest: restoreNetOuts_ok)
  show ?thesis
  proof (cases "Memory (Limits s)")
    case None
    with last have "c' = c3" by simp
    with None c2 c3 show ?thesis by (simp add: c1_def)
  next
    case (Some lim)
    with last have "LimitMemory C lim c3 w3 = (None, c', w')" by simp
    then have "c' = c3\<lparr>limits := (limits c3)\<lparr>Memory := Some lim\<rparr>, oomNotifier := True\<rparr>"
      by (rule LimitMemory_ok)
    with Some c2 c3 show ?thesis by (simp add: c1_def)
  qed
qed

lemma LinuxContainer_Restore_succeeds:
  assumes run: "\<forall>tr cmd. runner_Run C tr cmd = None"
      and start: "\<forall>tr cmd. runner_Start C tr cmd = None"
      and cg: "\<forall>tr s n v. cgroups_Set C tr s n v = None"
  shows "fst (LinuxContainer_Restore C s c w) = None"
proof -
  define c1 where "c1 = c\<lparr>state := State s, events := Events s, properties := Properties s,
      processes := Processes s,
      processIDCounter := fold (\<lambda>pid n. max n (pid + 1)) (Processes s) 0\<rparr>"
  define w1 where "w1 = emit [Run (netCmd c1 ''setup'' [])] w"
  obtain r2 c2 w2 where ins: "restoreNetIns C (NetIns s) c1 w1 = (r2, c2, w2)"
    by (metis prod_cases3)
  obtain r3 c3 w3 where outs: "restoreNetOuts C (NetOuts s) c2 w2 = (r3, c3, w3)"
    by (metis prod_cases3)
  from restoreNetIns_succeeds [OF run, of "NetIns s" c1 w1] ins have r2: "r2 = None" by simp
  from restoreNetOuts_succeeds [OF run, of "NetOuts s" c2 w2] outs have r3: "r3 = None" by simp
  show ?thesis
  proof (cases "Memory (Limits s)")
    case None
    with run ins outs r2 r3 show ?thesis
      by (simp add: LinuxContainer_Restore_def Let_def run_def c1_def [symmetric]
            w1_def [symmetric])
  next
    case (Some lim)
    from LimitMemory_succeeds [OF start cg, of lim c3 w3]
    obtain c4 w4 where "LimitMemory C lim c3 w3 = (None, c4, w4)"
      by (metis fst_conv prod_cases3)
    with Some run ins outs r2 r3 show ?thesis
      by (simp add: LinuxContainer_Restore_def Let_def run_def c1_def [symmetric]
            w1_def [symmetric])
  qed
qed

lemma removePorts_succeeds:
  "(\<forall>tr port. portPool_Remove C tr port = None) \<Longrightarrow> fst (removePorts C ports w) = None"
  by (induction ports arbitrary: w) simp_all

text \<open>
  Claim C2.  Take any container \<open>c\<close>, write its snapshot with the encoder and let the
  decoder read that stream back as the record that was written (the round trip of the
  JSON library).  Whenever the pool's \<open>Restore\<close> of the stream returns a container, its id,
  handle, grace time, state, events, properties, net-ins, net-outs, memory limit (set or
  absent) and resources are those of \<open>c\<close>.  And \<open>Restore\<close> does return a container when no
  pool refuses a removal and no script, notifier start or cgroup write fails.
\<close>

theorem Snapshot_Restore_roundtrip:
  assumes codec: "dec (Snapshot enc c) = Inr (snapshotOf c)"
  shows "(\<forall>c' w'. Restore p C dec (Snapshot enc c) w = (Inr c', w')
            \<longrightarrow> observable c' = observable c)
         \<and> ((\<forall>tr uid. uidPool_Remove C tr uid = None)
            \<longrightarrow> (\<forall>tr network. networkPool_Remove C tr network = None)
            \<longrightarrow> (\<forall>tr port. portPool_Remove C tr port = None)
            \<longrightarrow> (\<forall>tr cmd. runner_Run C tr cmd = None)
            \<longrightarrow> (\<forall>tr cmd. runner_Start C tr cmd = None)
            \<longrightarrow> (\<forall>tr s n v. cgroups_Set C tr s n v = None)
            \<longrightarrow> (\<exists>c' w'. Restore p C dec (Snapshot enc c) w = (Inr c', w')))"
proof (intro conjI allI impI)
  fix c' w'
  let ?s = "snapshotOf c"
  let ?new = "NewLinuxContainer (ID ?s) (Handle ?s) (pathJoin [depotPath p, ID ?s])
                (Properties ?s) (GraceTime ?s)
                \<lparr>UID = UID (SnapResources ?s), Network = Network (SnapResources ?s),
                 Ports = Ports (SnapResources ?s)\<rparr>"
  assume "Restore p C dec (Snapshot enc c) w = (Inr c', w')"
  with codec obtain w3 where "LinuxContainer_Restore C ?s ?new w3 = (None, c', w')"
    by (auto simp: Restore_def Let_def split: option.splits prod.splits)
  from LinuxContainer_Restore_ok [OF this]
  show "observable c' = observable c"
    by (auto simp: observable_def snapshotOf_def NewLinuxContainer_def split: option.splits)
next
  let ?s = "snapshotOf c"
  let ?new = "NewLinuxContainer (ID ?s) (Handle ?s) (pathJoin [depotPath p, ID ?s])
                (Properties ?s) (GraceTime ?s)
                \<lparr>UID = UID (SnapResources ?s), Network = Network (SnapResources ?s),
                 Ports = Ports (SnapResources ?s)\<rparr>"
  let ?w2 = "emit [UIDRemove (UID (SnapResources ?s)), NetworkRemove (Network (SnapResources ?s))] w"
  assume uid: "\<forall>tr uid. uidPool_Remove C tr uid = None"
     and net: "\<forall>tr network. networkPool_Remove C tr network = None"
     and port: "\<forall>tr port. portPool_Remove C tr port = None"
     and run: "\<forall>tr cmd. runner_Run C tr cmd = None"
     and start: "\<forall>tr cmd. runner_Start C tr cmd = None"
     and cg: "\<forall>tr s n v. cgroups_Set C tr s n v = None"
  from removePorts_succeeds [OF port, of "Ports (SnapResources ?s)" ?w2]
  obtain w3 where ports: "removePorts C (Ports (SnapResources ?s)) ?w2 = (None, w3)"
    by (metis fst_conv surj_pair)
  from LinuxContainer_Restore_succeeds [OF run start cg, of ?s ?new w3]
  obtain c' w' where "LinuxContainer_Restore C ?s ?new w3 = (None, c', w')"
    by (metis fst_conv prod_cases3)
  with codec uid net ports have "Restore p C dec (Snapshot enc c) w = (Inr c', w')"
    by (simp add: Restore_def Let_def)
  then show "\<exists>c' w'. Restore p C dec (Snapshot enc c) w = (Inr c', w')"
    by blast
qed

lemma show102400: "showNat (unat (LimitInBytes limits102400)) = ''102400''"
  by (simp add: limits102400_def showNat.simps)

theorem LimitMemory_three_writes_witness:
  "(oomNotifier (created spec0)
      \<or> runner_Start fakesMemswFails (trace world0) (oomCmd (created spec0)) = None)
   \<and> cgroups_Set fakesMemswFails
         [Start (oomCmd (created spec0)),
          CgroupSet ''memory'' ''memory.limit_in_bytes'' ''102400'']
         ''memory'' ''memory.memsw.limit_in_bytes'' ''102400'' = Some disaster
   \<and> fst (LimitMemory fakesMemswFails limits102400 (created spec0) world0) = None
   \<and> trace (snd (snd (LimitMemory fakesMemswFails limits102400 (created spec0) world0)))
       = [Start (oomCmd (created spec0)),
          CgroupSet ''memory'' ''memory.limit_in_bytes'' ''102400'',
          CgroupSet ''memory'' ''memory.memsw.limit_in_bytes'' ''102400'',
          CgroupSet ''memory'' ''memory.limit_in_bytes'' ''102400'']
   \<and> fst (LimitMemory fakesSecondLimitFails limits102400 (created spec0) world0)
       = Some disaster
   \<and> trace (snd (snd (LimitMemory fakesSecondLimitFails limits102400 (created spec0) world0)))
       = [Start (oomCmd (created spec0)),
          CgroupSet ''memory'' ''memory.limit_in_bytes'' ''102400'',
          CgroupSet ''memory'' ''memory.memsw.limit_in_bytes'' ''102400'',
          CgroupSet ''memory'' ''memory.limit_in_bytes'' ''102400'']"
proof -
  let ?c = "created spec0"
  let ?started = "[Start (oomCmd ?c)]"
  have n: "\<not> oomNotifier ?c"
    by (simp add: created_def NewLinuxContainer_def)
  have t: "trace world0 = []"
    by (simp add: world0_def)
  have s1: "oomNotifier ?c \<or> runner_Start fakesMemswFails (trace world0) (oomCmd ?c) = None"
    by (simp add: fakesMemswFails_def fakes_def)
  have s2: "oomNotifier ?c \<or> runner_Start fakesSecondLimitFails (trace world0) (oomCmd ?c) = None"
    by (simp add: fakesSecondLimitFails_def fakes_def)
  have st: "?started = (if oomNotifier ?c then trace world0
                        else trace world0 @ [Start (oomCmd ?c)])"
    by (simp add: n t)
  have memsw: "cgroups_Set fakesMemswFails
         [Start (oomCmd ?c), CgroupSet ''memory'' ''memory.limit_in_bytes'' ''102400'']
         ''memory'' ''memory.memsw.limit_in_bytes'' ''102400'' = Some disaster"
    by (simp add: fakesMemswFails_def fakes_def)
  have third1: "cgroups_Set fakesMemswFails
         (?started @ [CgroupSet ''memory'' ''memory.limit_in_bytes'' ''102400'',
                      CgroupSet ''memory'' ''memory.memsw.limit_in_bytes'' ''102400''])
         ''memory'' ''memory.limit_in_bytes'' ''102400'' = None"
    by (simp add: fakesMemswFails_def fakes_def)
  have third2: "cgroups_Set fakesSecondLimitFails
         (?started @ [CgroupSet ''memory'' ''memory.limit_in_bytes'' ''102400'',
                      CgroupSet ''memory'' ''memory.memsw.limit_in_bytes'' ''102400''])
         ''memory'' ''memory.limit_in_bytes'' ''102400'' = Some disaster"
    by (simp add: fakesSecondLimitFails_def fakes_def)
  from LimitMemory_three_writes [OF s1 show102400 [symmetric] st] third1
       LimitMemory_three_writes [OF s2 show102400 [symmetric] st] third2
       s1 memsw
  show ?thesis by simp
qed

theorem Snapshot_Restore_roundtrip_witness:
  "Inr (Snapshot (\<lambda>s. s) container0) = Inr (snapshotOf container0)
   \<and> (\<exists>c' w'. Restore pool0 fakes Inr (Snapshot (\<lambda>s. s) container0) world0 = (Inr c', w')
              \<and> observable c' = observable container0)"
proof -
  have codec: "Inr (Snapshot (\<lambda>s. s) container0) = Inr (snapshotOf container0)"
    by (simp add: Snapshot_def)
  note R = Snapshot_Restore_roundtrip [where dec = Inr and enc = "\<lambda>s. s" and c = container0
             and p = pool0 and C = fakes and w = world0, OF codec]
  have "\<exists>c' w'. Restore pool0 fakes Inr (Snapshot (\<lambda>s. s) container0) world0 = (Inr c', w')"
    using R by (simp add: fakes_def)
  then obtain c' w'
    where r: "Restore pool0 fakes Inr (Snapshot (\<lambda>s. s) container0) world0 = (Inr c', w')"
    by blast
  with R have "observable c' = observable container0"
    by blast
  with r codec show ?thesis
    by blast
qed

subsection \<open>The script of a process\<close>

lemma escapeQuotes_Nil [simp]: "escapeQuotes [] = []"
  by (simp add: escapeQuotes_def)

lemma escapeQuotes_Cons [simp]:
  "escapeQuotes (c # v) = (if c = dquote then [backslash, dquote] else [c]) @ escapeQuotes v"
  by (simp add: escapeQuotes_def)

lemma escapeQuotes_append [simp]:
  "escapeQuotes (a @ b) = escapeQuotes a @ escapeQuotes b"
  by (simp add: escapeQuotes_def)

lemma escapeQuotes_unquoted: "dquote \<notin> set v \<Longrightarrow> escapeQuotes v = v"
  by (induction v) auto

text \<open>
  Claim C7, as the tests have it.  The script that \<open>Run\<close> hands to the supervisor on its
  standard input is one line \<open>export K="V'"\<close> per environment variable, in order, followed
  by the user's script, where \<open>V'\<close> is the value with a backslash put before every double
  quote.  A value without a double quote is passed through unchanged, dollar signs and
  line breaks included.
\<close>

theorem runScript_exports:
  "runScript spec
     = concat (map (\<lambda>ev. ''export '' @ Key ev @ ''='' @ [dquote] @ escapeQuotes (Value ev)
                           @ [dquote, newline])
                   (EnvironmentVariables spec))
       @ Script spec
   \<and> (\<forall>v. dquote \<notin> set v \<longrightarrow> escapeQuotes v = v)
   \<and> (\<forall>a b. escapeQuotes (a @ dquote # b)
              = escapeQuotes a @ backslash # dquote # escapeQuotes b)"
proof -
  have "exportLine = (\<lambda>ev. ''export '' @ Key ev @ ''='' @ [dquote] @ escapeQuotes (Value ev)
                              @ [dquote, newline])"
    by (rule ext) (simp add: exportLine_def)
  then have "runScript spec
     = concat (map (\<lambda>ev. ''export '' @ Key ev @ ''='' @ [dquote] @ escapeQuotes (Value ev)
                           @ [dquote, newline])
                   (EnvironmentVariables spec))
       @ Script spec"
    by (simp only: runScript_def)
  then show ?thesis
    by (simp add: escapeQuotes_unquoted)
qed

theorem runScript_exports_witness:
  "dquote \<notin> set ''snake $PLISSKEN''
   \<and> escapeQuotes ''snake $PLISSKEN'' = ''snake $PLISSKEN''
   \<and> runScript testProcessSpec
       = ''export ESCAPED='' @ [dquote] @ ''kurt '' @ [backslash, dquote] @ ''russell''
           @ [backslash, dquote] @ [dquote, newline]
         @ ''export INTERPOLATED='' @ [dquote] @ ''snake $PLISSKEN'' @ [dquote, newline]
         @ ''export UNESCAPED='' @ [dquote] @ ''isaac'' @ [newline] @ ''hayes''
           @ [dquote, newline]
         @ ''/some/script''"
proof -
  note R = runScript_exports [of testProcessSpec]
  have q: "dquote \<notin> set ''snake $PLISSKEN''"
    by (simp add: dquote_def)
  from R q have e: "escapeQuotes ''snake $PLISSKEN'' = ''snake $PLISSKEN''"
    by blast
  from R have "runScript testProcessSpec
     = concat (map (\<lambda>ev. ''export '' @ Key ev @ ''='' @ [dquote] @ escapeQuotes (Value ev)
                           @ [dquote, newline])
                   (EnvironmentVariables testProcessSpec))
       @ Script testProcessSpec"
    by blast
  then have "runScript testProcessSpec
       = ''export ESCAPED='' @ [dquote] @ ''kurt '' @ [backslash, dquote] @ ''russell''
           @ [backslash, dquote] @ [dquote, newline]
         @ ''export INTERPOLATED='' @ [dquote] @ ''snake $PLISSKEN'' @ [dquote, newline]
         @ ''export UNESCAPED='' @ [dquote] @ ''isaac'' @ [newline] @ ''hayes''
           @ [dquote, newline]
         @ ''/some/script''"
    by (simp add: testProcessSpec_def dquote_def newline_def backslash_def)
  with q e show ?thesis
    by blast
qed

text \<open>
  Claim C7 as it is written has every value copied between the quotes unchanged.  On the
  process specification of the test "runs the script with escaped environment variables",
  whose first value is \<open>kurt "russell"\<close>, the script differs from that.
\<close>

theorem runScript_unescaped_counterexample:
  "runScript testProcessSpec
     \<noteq> concat (map unescapedExportLine (EnvironmentVariables testProcessSpec))
         @ Script testProcessSpec"
  by (simp add: runScript_def testProcessSpec_def exportLine_def unescapedExportLine_def
        dquote_def backslash_def newline_def)

section \<open>The backend over the container pool\<close>

subsection \<open>A container that was created\<close>

lemma emit_containerNum_update [simp]:
  "emit evs (w\<lparr>containerNum := n\<rparr>) = (emit evs w)\<lparr>containerNum := n\<rparr>"
  by (simp add: emit_def)

lemma run_runs:
  "\<exists>evs. trace (snd (run C cmd w)) = trace w @ evs \<and> list_all isRun evs"
  by (simp add: run_def)

lemma writeBindMounts_runs:
  "\<exists>evs. trace (snd (writeBindMounts C cpath bms w)) = trace w @ evs \<and> list_all isRun evs"
proof (induction bms arbitrary: w)
  case Nil
  then show ?case by simp
next
  case (Cons bm bms)
  have step: "\<exists>evs. trace w' = trace w @ evs \<and> list_all isRun evs"
    if "trace w' = trace w @ evs0" and "list_all isRun evs0" for w' evs0
    using that by blast
  have rest: "\<exists>evs. trace (snd (writeBindMounts C cpath bms w4)) = trace w @ evs
                     \<and> list_all isRun evs"
    if "trace w4 = trace w @ evs0" and "list_all isRun evs0" for w4 evs0
  proof -
    from Cons [of w4] obtain evs
      where "trace (snd (writeBindMounts C cpath bms w4)) = trace w4 @ evs"
        and "list_all isRun evs"
      by blast
    with that have "trace (snd (writeBindMounts C cpath bms w4)) = trace w @ (evs0 @ evs)
                    \<and> list_all isRun (evs0 @ evs)"
      by simp
    then show ?thesis by blast
  qed
  define hook where "hook = pathJoin [cpath, ''lib'', ''hook-child-before-pivot.sh'']"
  define dstMount where "dstMount = pathJoin [cpath, ''mnt'', DstPath bm]"
  define srcPath where "srcPath = (if OriginContainer bm
                     then pathJoin [cpath, ''tmp'', ''rootfs'', SrcPath bm]
                     else SrcPath bm)"
  define mode where "mode = (if ReadWrite bm then ''rw'' else ''ro'')"
  define c1 where "c1 = bash (''echo >> '' @ hook)"
  define c2 where "c2 = bash (''echo mkdir -p '' @ dstMount @ '' >> '' @ hook)"
  define c3 where "c3 = bash (''echo mount -n --bind '' @ srcPath @ '' '' @ dstMount
                            @ '' >> '' @ hook)"
  define c4 where "c4 = bash (''echo mount -n --bind -o remount,'' @ mode @ '' '' @ srcPath
                            @ '' '' @ dstMount @ '' >> '' @ hook)"
  have unfold: "writeBindMounts C cpath (bm # bms) w =
     (case run C c1 w of
        (Some err, w1) \<Rightarrow> (Some err, w1)
      | (None, w1) \<Rightarrow>
       (case run C c2 w1 of
           (Some err, w2) \<Rightarrow> (Some err, w2)
         | (None, w2) \<Rightarrow>
       (case run C c3 w2 of
           (Some err, w3) \<Rightarrow> (Some err, w3)
         | (None, w3) \<Rightarrow>
       (case run C c4 w3 of
           (Some err, w4) \<Rightarrow> (Some err, w4)
         | (None, w4) \<Rightarrow> writeBindMounts C cpath bms w4))))"
    by (simp only: writeBindMounts.simps Let_def c1_def c2_def c3_def c4_def hook_def
          dstMount_def srcPath_def mode_def)
  show ?case
    unfolding unfold
    by (auto simp: run_def split: option.splits intro!: rest)
qed

lemma Create_returns:
  assumes "Create p C spec w = (Inr container, w')"
  shows "\<exists>uid network evs.
           uidPool_Acquire C (trace w) = Inr uid
           \<and> networkPool_Acquire C (trace w @ [UIDAcquire]) = Inr network
           \<and> container
               = NewLinuxContainer (containerID (containerNum w))
                   (if specHandle spec \<noteq> [] then specHandle spec
                    else containerID (containerNum w))
                   (pathJoin [depotPath p, containerID (containerNum w)])
                   (specProperties spec) (specGraceTime spec)
                   \<lparr>UID = uid, Network = network, Ports = []\<rparr>
           \<and> trace w' = trace w @ [UIDAcquire, NetworkAcquire] @ evs
           \<and> list_all isRun evs"
proof -
  from assms obtain uid where uid: "uidPool_Acquire C (trace w) = Inr uid"
    by (cases "uidPool_Acquire C (trace w)") (simp_all add: Create_def)
  from assms uid obtain network
    where net: "networkPool_Acquire C (trace w @ [UIDAcquire]) = Inr network"
    by (cases "networkPool_Acquire C (trace w @ [UIDAcquire])") (simp_all add: Create_def Let_def)
  let ?i = "containerID (containerNum w)"
  let ?c = "NewLinuxContainer ?i (if specHandle spec \<noteq> [] then specHandle spec else ?i)
              (pathJoin [depotPath p, ?i]) (specProperties spec) (specGraceTime spec)
              \<lparr>UID = uid, Network = network, Ports = []\<rparr>"
  let ?create = "createCmd p ?i uid network"
  let ?w3 = "(emit [UIDAcquire, NetworkAcquire, Run ?create] w)
               \<lparr>containerNum := containerNum w + 1\<rparr>"
  from assms uid net
  have ok: "runner_Run C (trace w @ [UIDAcquire, NetworkAcquire]) ?create = None"
    by (cases "runner_Run C (trace w @ [UIDAcquire, NetworkAcquire]) ?create")
       (simp_all add: Create_def Let_def run_def NewLinuxContainer_def)
  from assms uid net ok
  have bm: "writeBindMounts C (pathJoin [depotPath p, ?i]) (specBindMounts spec) ?w3 = (None, w')"
    and c: "container = ?c"
    by (auto simp: Create_def Let_def run_def NewLinuxContainer_def
          split: option.splits prod.splits)
  from writeBindMounts_runs [of C "pathJoin [depotPath p, ?i]" "specBindMounts spec" ?w3] bm
  obtain evs where "trace w' = trace ?w3 @ evs" and "list_all isRun evs"
    by auto
  then have "trace w' = trace w @ [UIDAcquire, NetworkAcquire] @ (Run ?create # evs)
             \<and> list_all isRun (Run ?create # evs)"
    by simp
  with uid net c show ?thesis by blast
qed

text \<open>
  With the pool of this repository behind the backend: when \<open>Create\<close> has made a container
  and its \<open>start.sh\<close> fails, everything that was called is the two acquisitions and
  scripts.  No user id and no network was released.
\<close>

lemma Backend_Create_start_fails_no_release:
  assumes "Create p C spec (behind b) = (Inr container, w1)"
      and "runner_Run C (trace w1) (startCmd container) = Some err"
  shows "fst (Backend_Create (linuxContainerPool p C) spec b) = Inl err
         \<and> containers (snd (Backend_Create (linuxContainerPool p C) spec b)) = containers b
         \<and> (\<exists>evs. trace (behind (snd (Backend_Create (linuxContainerPool p C) spec b)))
                      = trace (behind b) @ [UIDAcquire, NetworkAcquire] @ evs
                    \<and> list_all isRun evs)"
proof -
  from Create_returns [OF assms(1)]
  obtain evs where t: "trace w1 = trace (behind b) @ [UIDAcquire, NetworkAcquire] @ evs"
    and r: "list_all isRun evs"
    by blast
  have "trace (emit [Run (startCmd container)] w1)
          = trace (behind b) @ [UIDAcquire, NetworkAcquire] @ (evs @ [Run (startCmd container)])
        \<and> list_all isRun (evs @ [Run (startCmd container)])"
    using t r by simp
  then have "\<exists>evs. trace (emit [Run (startCmd container)] w1)
                   = trace (behind b) @ [UIDAcquire, NetworkAcquire] @ evs
                 \<and> list_all isRun evs"
    by blast
  with assms show ?thesis
    by (simp add: Backend_Create_def linuxContainerPool_def LinuxContainer_Start_def run_def
          del: trace_emit)
qed

text \<open>
  The first scenario of the specification: a pool with user ids from 10000 and the subnet
  1.2.0.0/30 first creates, for an empty specification, a container with that user id
  and subnet, an id of eleven characters and the id as its handle.
\<close>

lemma Create_empty_spec:
  "\<exists>container w'.
     Create pool0 fakes \<lparr>specHandle = [], specGraceTime = 0, specProperties = Map.empty,
                          specBindMounts = []\<rparr> world0 = (Inr container, w')
     \<and> UID (resources container) = 10000
     \<and> hostIP (Network (resources container)) = ''1.2.0.1''
     \<and> containerIP (Network (resources container)) = ''1.2.0.2''
     \<and> length (cid container) = 11
     \<and> handle container = cid container
     \<and> properties container = Map.empty
     \<and> state container = ''born''"
  by (simp add: Create_def Let_def run_def fakes_def NewLinuxContainer_def network0_def
        containerID_length)

end
